theory Spec2Isabelle
  imports Main "HOL-Library.Word"
begin

section \<open>JavaScript values used by the worker\<close>

text \<open>
  The worker (\<^verbatim>\<open>src/index.ts\<close>) is a Cloudflare tail handler. Its inputs are the
  trace items of the runtime: text fields hold a string, \<^verbatim>\<open>null\<close> or
  \<^verbatim>\<open>undefined\<close>; time fields hold a number (integral milliseconds), \<^verbatim>\<open>null\<close> or
  \<^verbatim>\<open>undefined\<close>. Strings are held as their UTF-8 bytes, one \<^typ>\<open>char\<close> per byte.
\<close>

datatype jsval = JUndefined | JNull | JStr string

datatype jsnum = NUndefined | NNull | NNum int

datatype jserror = RangeError string | TypeError string | Error string

type_synonym byte = "8 word"

text \<open>ToString, as applied by a template literal and by \<^verbatim>\<open>RegExp.prototype.test\<close>.\<close>

fun to_string :: "jsval \<Rightarrow> string" where
  "to_string JUndefined = ''undefined''"
| "to_string JNull = ''null''"
| "to_string (JStr s) = s"

text \<open>ToBoolean: \<^verbatim>\<open>undefined\<close>, \<^verbatim>\<open>null\<close> and the empty string are falsy.\<close>

fun truthy :: "jsval \<Rightarrow> bool" where
  "truthy JUndefined = False"
| "truthy JNull = False"
| "truthy (JStr s) = (s \<noteq> [])"

text \<open>The operator \<^verbatim>\<open>a || b\<close>.\<close>

definition or_else :: "jsval \<Rightarrow> jsval \<Rightarrow> jsval" where
  "or_else a b = (if truthy a then a else b)"

text \<open>\<^verbatim>\<open>Array.prototype.join\<close> on an array of strings.\<close>

fun join :: "string \<Rightarrow> string list \<Rightarrow> string" where
  "join sep [] = []"
| "join sep [x] = x"
| "join sep (x # y # ys) = x @ sep @ join sep (y # ys)"

text \<open>Decimal digits of a natural number (ToString of a non-negative integer).\<close>

fun digit_char :: "nat \<Rightarrow> char" where
  "digit_char n = char_of (of_char (CHR ''0'') + n)"

fun show_nat :: "nat \<Rightarrow> string" where
  "show_nat n = (if n < 10 then [digit_char n] else show_nat (n div 10) @ [digit_char (n mod 10)])"

declare show_nat.simps [simp del]

text \<open>\<^verbatim>\<open>String.prototype.padStart(n, '0')\<close>.\<close>

definition padStart :: "nat \<Rightarrow> char \<Rightarrow> string \<Rightarrow> string" where
  "padStart n c s = replicate (n - length s) c @ s"

section \<open>Regular expressions of the noise filter\<close>

text \<open>
  The three literals of \<^verbatim>\<open>IGNORE_PATTERNS\<close> use the assertions \<^verbatim>\<open>^\<close> and \<^verbatim>\<open>$\<close>,
  literal characters (\<^verbatim>\<open>\.\<close> is a literal dot), the negated class \<^verbatim>\<open>[^/]\<close> and the
  quantifier \<^verbatim>\<open>+\<close>. No literal carries a flag, so \<^verbatim>\<open>$\<close> is the end of the input,
  \<^verbatim>\<open>test\<close> keeps no state, and the search tries every start position.
\<close>

datatype cls = Lit char | NotChar char

datatype item = Bol | Eol | One cls | OneOrMore cls

type_synonym regexp = "item list"

fun in_cls :: "cls \<Rightarrow> char \<Rightarrow> bool" where
  "in_cls (Lit c) x = (x = c)"
| "in_cls (NotChar c) x = (x \<noteq> c)"

text \<open>
  \<open>match_here r b s\<close>: the pattern \<open>r\<close> matches a prefix of \<open>s\<close>; \<open>b\<close> tells whether
  \<open>s\<close> starts at the beginning of the input.
\<close>

fun match_here :: "regexp \<Rightarrow> bool \<Rightarrow> string \<Rightarrow> bool" where
  "match_here [] b s = True"
| "match_here (Bol # r) b s = (b \<and> match_here r b s)"
| "match_here (Eol # r) b s = (s = [] \<and> match_here r b s)"
| "match_here (One c # r) b [] = False"
| "match_here (One c # r) b (x # xs) = (in_cls c x \<and> match_here r False xs)"
| "match_here (OneOrMore c # r) b [] = False"
| "match_here (OneOrMore c # r) b (x # xs) =
     (in_cls c x \<and> (match_here (OneOrMore c # r) False xs \<or> match_here r False xs))"

definition search :: "regexp \<Rightarrow> string \<Rightarrow> bool" where
  "search r s = list_ex (\<lambda>i. match_here r (i = 0) (drop i s)) [0..<Suc (length s)]"

text \<open>\<^verbatim>\<open>pattern.test(v)\<close>: the argument is converted to a string first.\<close>

definition test :: "regexp \<Rightarrow> jsval \<Rightarrow> bool" where
  "test pattern v = search pattern (to_string v)"

definition lits :: "string \<Rightarrow> regexp" where
  "lits s = map (\<lambda>c. One (Lit c)) s"

text \<open>\<^verbatim>\<open>const ERROR_WINDOW = 60 * 60;\<close>\<close>

definition ERROR_WINDOW :: nat where
  "ERROR_WINDOW = 60 * 60"

text \<open>
  \<^verbatim>\<open>const IGNORE_PATTERNS = [ /^favicon\.[^/]+$/, /^robots\.txt$/, /^apple-[^/]+\.png$/ ];\<close>
\<close>

definition IGNORE_PATTERNS :: "regexp list" where
  "IGNORE_PATTERNS =
     [ [Bol] @ lits ''favicon.'' @ [OneOrMore (NotChar CHR ''/''), Eol],
       [Bol] @ lits ''robots.txt'' @ [Eol],
       [Bol] @ lits ''apple-'' @ [OneOrMore (NotChar CHR ''/'')] @ lits ''.png'' @ [Eol] ]"

section \<open>Dates\<close>

text \<open>
  \<^verbatim>\<open>new Date(v)\<close> for a value \<open>v\<close>: the time value in milliseconds since the epoch,
  or NaN (\<open>None\<close>). \<^verbatim>\<open>undefined\<close> gives NaN, \<^verbatim>\<open>null\<close> converts to 0, and a number
  is clipped: beyond 8.64e15 milliseconds on either side it is NaN.
\<close>

fun new_Date :: "jsnum \<Rightarrow> int option" where
  "new_Date NUndefined = None"
| "new_Date NNull = Some 0"
| "new_Date (NNum n) = (if \<bar>n\<bar> \<le> 8640000000000000 then Some n else None)"

text \<open>The proleptic Gregorian date (year, month, day) of a day number counted from 1970-01-01.\<close>

definition civil_from_days :: "int \<Rightarrow> int \<times> int \<times> int" where
  "civil_from_days days =
     (let z = days + 719468;
          era = z div 146097;
          doe = z - era * 146097;
          yoe = (doe - doe div 1460 + doe div 36524 - doe div 146096) div 365;
          doy = doe - (365 * yoe + yoe div 4 - yoe div 100);
          mp = (5 * doy + 2) div 153;
          d = doy - (153 * mp + 2) div 5 + 1;
          m = (if mp < 10 then mp + 3 else mp - 9);
          y = yoe + era * 400 + (if m \<le> 2 then 1 else 0)
      in (y, m, d))"

definition pad_int :: "nat \<Rightarrow> int \<Rightarrow> string" where
  "pad_int n i = padStart n CHR ''0'' (show_nat (nat i))"

text \<open>Years 0 to 9999 print with four digits, all others with a sign and six digits.\<close>

definition iso_year :: "int \<Rightarrow> string" where
  "iso_year y =
     (if 0 \<le> y \<and> y \<le> 9999 then pad_int 4 y
      else (if y < 0 then ''-'' else ''+'') @ pad_int 6 \<bar>y\<bar>)"

definition iso_format :: "int \<Rightarrow> string" where
  "iso_format t =
     (let days = t div 86400000;
          ms = t mod 86400000;
          (y, m, d) = civil_from_days days
      in iso_year y @ ''-'' @ pad_int 2 m @ ''-'' @ pad_int 2 d @ ''T''
         @ pad_int 2 (ms div 3600000) @ '':'' @ pad_int 2 (ms div 60000 mod 60) @ '':''
         @ pad_int 2 (ms div 1000 mod 60) @ ''.'' @ pad_int 3 (ms mod 1000) @ ''Z'')"

text \<open>\<^verbatim>\<open>Date.prototype.toISOString\<close> throws a RangeError on an invalid date.\<close>

definition toISOString :: "int option \<Rightarrow> jserror + string" where
  "toISOString d =
     (case d of None \<Rightarrow> Inl (RangeError ''Invalid time value'')
      | Some t \<Rightarrow> Inr (iso_format t))"

section \<open>Trace items and error contexts\<close>

text \<open>
  The fields of a trace item that the worker reads. An absent (or \<^verbatim>\<open>null\<close>)
  \<^verbatim>\<open>event\<close> or \<^verbatim>\<open>request\<close> is \<open>None\<close>.

  The value of \<^verbatim>\<open>logs\<close> or \<^verbatim>\<open>exceptions\<close> is \<open>Absent\<close> (\<^verbatim>\<open>undefined\<close>, \<^verbatim>\<open>null\<close> or
  another falsy value), \<open>NotArray\<close> (a truthy value that is not an array, so that it
  has no \<^verbatim>\<open>map\<close>), or an array \<open>Items\<close>. An element of the array is \<open>None\<close> when it
  is \<^verbatim>\<open>null\<close>, and otherwise an entry with its fields; a field that the element does
  not have is \<^verbatim>\<open>undefined\<close>.
\<close>

datatype 'a js_array = Absent | NotArray | Items "'a option list"

record trace_log =
  log_timestamp :: jsnum
  log_level :: jsval
  log_message :: jsval

record trace_exception =
  ex_name :: jsval
  ex_message :: jsval

record request_info =
  req_url :: jsval
  req_method :: jsval

record event_info =
  request :: "request_info option"

record trace_item =
  ev_outcome :: string
  ev_eventTimestamp :: jsnum
  ev_scriptName :: jsval
  ev_event :: "event_info option"
  ev_logs :: "trace_log js_array"
  ev_exceptions :: "trace_exception js_array"

text \<open>The object that \<^verbatim>\<open>extractContext\<close> returns.\<close>

record error_context =
  timestamp :: string
  scriptName :: jsval
  url :: jsval
  "method" :: jsval
  logs :: string
  exceptions :: string

text \<open>
  \<^verbatim>\<open>Array.prototype.map\<close> with a callback that may throw: the first exception
  ends the traversal.
\<close>

fun map_throwing :: "('a \<Rightarrow> jserror + 'b) \<Rightarrow> 'a list \<Rightarrow> jserror + 'b list" where
  "map_throwing f [] = Inr []"
| "map_throwing f (x # xs) =
     (case f x of Inl e \<Rightarrow> Inl e
      | Inr y \<Rightarrow> (case map_throwing f xs of Inl e \<Rightarrow> Inl e | Inr ys \<Rightarrow> Inr (y # ys)))"

text \<open>Reading the property \<open>p\<close> of \<^verbatim>\<open>null\<close> throws a TypeError.\<close>

definition null_property_error :: "string \<Rightarrow> jserror" where
  "null_property_error p =
     TypeError (''Cannot read properties of null (reading '' @ [CHR 0x27] @ p @ [CHR 0x27] @ '')'')"

text \<open>
  \<^verbatim>\<open>v.map(f)\<close> on a truthy value \<open>v\<close> that the source names \<open>name\<close>: an array
  (\<open>Some\<close>) is mapped, any other value (\<open>None\<close>) has no \<^verbatim>\<open>map\<close> to call.
\<close>

definition array_map ::
  "string \<Rightarrow> ('a option \<Rightarrow> jserror + 'b) \<Rightarrow> 'a option list option \<Rightarrow> jserror + 'b list" where
  "array_map name f v =
     (case v of
        None \<Rightarrow> Inl (TypeError (name @ ''.map is not a function''))
      | Some xs \<Rightarrow> map_throwing f xs)"

text \<open>
  \<^verbatim>\<open>log => `${new Date(log.timestamp).toISOString()} [${log.level}] ${log.message}`\<close>
\<close>

definition formatLogs_line :: "trace_log option \<Rightarrow> jserror + string" where
  "formatLogs_line entry =
     (case entry of
        None \<Rightarrow> Inl (null_property_error ''timestamp'')
      | Some log \<Rightarrow>
          (case toISOString (new_Date (log_timestamp log)) of Inl e \<Rightarrow> Inl e
           | Inr t \<Rightarrow>
               Inr (t @ '' ['' @ to_string (log_level log) @ ''] '' @ to_string (log_message log))))"

definition formatLogs :: "trace_log option list option \<Rightarrow> jserror + string" where
  "formatLogs ls =
     (case array_map ''logs'' formatLogs_line ls of Inl e \<Rightarrow> Inl e
      | Inr lines \<Rightarrow> Inr (join [CHR 0x0A] lines))"

text \<open>\<^verbatim>\<open>ex => `${ex.name}: ${ex.message}`\<close>\<close>

definition formatExceptions_line :: "trace_exception option \<Rightarrow> jserror + string" where
  "formatExceptions_line entry =
     (case entry of
        None \<Rightarrow> Inl (null_property_error ''name'')
      | Some ex \<Rightarrow> Inr (to_string (ex_name ex) @ '': '' @ to_string (ex_message ex)))"

definition formatExceptions :: "trace_exception option list option \<Rightarrow> jserror + string" where
  "formatExceptions exs =
     (case array_map ''exceptions'' formatExceptions_line exs of Inl e \<Rightarrow> Inl e
      | Inr lines \<Rightarrow> Inr (join [CHR 0x0A] lines))"

text \<open>\<^verbatim>\<open>event.event?.request?.url\<close> and \<^verbatim>\<open>event.event?.request?.method\<close>.\<close>

definition request_field :: "(request_info \<Rightarrow> jsval) \<Rightarrow> trace_item \<Rightarrow> jsval" where
  "request_field f event =
     (case ev_event event of None \<Rightarrow> JUndefined
      | Some info \<Rightarrow> (case request info of None \<Rightarrow> JUndefined | Some r \<Rightarrow> f r))"

text \<open>
  \<^verbatim>\<open>xs || []\<close>: the empty array for a falsy \<open>xs\<close>, and \<open>xs\<close> itself otherwise, which
  is an array (\<open>Some\<close>) or a value that is not one (\<open>None\<close>).
\<close>

definition or_empty :: "'a js_array \<Rightarrow> 'a option list option" where
  "or_empty xs = (case xs of Absent \<Rightarrow> Some [] | NotArray \<Rightarrow> None | Items ys \<Rightarrow> Some ys)"

text \<open>The properties of the object literal are evaluated in their written order.\<close>

definition extractContext :: "trace_item \<Rightarrow> jserror + error_context" where
  "extractContext event =
     (case toISOString (new_Date (ev_eventTimestamp event)) of Inl e \<Rightarrow> Inl e
      | Inr ts \<Rightarrow>
         (case formatLogs (or_empty (ev_logs event)) of Inl e \<Rightarrow> Inl e
          | Inr ls \<Rightarrow>
             (case formatExceptions (or_empty (ev_exceptions event)) of Inl e \<Rightarrow> Inl e
              | Inr exs \<Rightarrow>
                 Inr \<lparr> timestamp = ts,
                       scriptName = ev_scriptName event,
                       url = request_field req_url event,
                       method = request_field req_method event,
                       logs = ls,
                       exceptions = exs \<rparr>)))"

section \<open>JSON serialisation\<close>

text \<open>The values that the worker passes to \<^verbatim>\<open>JSON.stringify\<close>.\<close>

datatype json =
    JsonUndefined
  | JsonNull
  | JsonBool bool
  | JsonString string
  | JsonArray "json list"
  | JsonObject "(string \<times> json) list"

fun of_jsval :: "jsval \<Rightarrow> json" where
  "of_jsval JUndefined = JsonUndefined"
| "of_jsval JNull = JsonNull"
| "of_jsval (JStr s) = JsonString s"

definition hex_digit :: "nat \<Rightarrow> char" where
  "hex_digit n = ''0123456789abcdef'' ! (n mod 16)"

text \<open>
  QuoteJSONString: the quote and the backslash are escaped, control characters have a
  short escape or the form \<^verbatim>\<open>\u00xx\<close>, every other character stands for itself.
\<close>

definition quote_char :: "char \<Rightarrow> string" where
  "quote_char c =
     (if c = CHR 0x22 then [CHR 0x5C, CHR 0x22]
      else if c = CHR 0x5C then [CHR 0x5C, CHR 0x5C]
      else if c = CHR 0x08 then [CHR 0x5C, CHR ''b'']
      else if c = CHR 0x09 then [CHR 0x5C, CHR ''t'']
      else if c = CHR 0x0A then [CHR 0x5C, CHR ''n'']
      else if c = CHR 0x0C then [CHR 0x5C, CHR ''f'']
      else if c = CHR 0x0D then [CHR 0x5C, CHR ''r'']
      else if (of_char c :: nat) < 0x20
        then [CHR 0x5C] @ ''u00'' @ [hex_digit (of_char c div 16), hex_digit (of_char c)]
      else [c])"

definition quote :: "string \<Rightarrow> string" where
  "quote s = [CHR 0x22] @ concat (map quote_char s) @ [CHR 0x22]"

text \<open>
  SerializeJSONProperty: \<open>None\<close> is the result \<^verbatim>\<open>undefined\<close>. A property whose value
  is \<^verbatim>\<open>undefined\<close> is left out of an object; in an array it is written \<^verbatim>\<open>null\<close>.
\<close>

fun serialize :: "json \<Rightarrow> string option" where
  "serialize JsonUndefined = None"
| "serialize JsonNull = Some ''null''"
| "serialize (JsonBool b) = Some (if b then ''true'' else ''false'')"
| "serialize (JsonString s) = Some (quote s)"
| "serialize (JsonArray xs) =
     Some (''['' @ join '','' (map (\<lambda>x. case serialize x of None \<Rightarrow> ''null'' | Some t \<Rightarrow> t) xs) @ '']'')"
| "serialize (JsonObject ps) =
     Some (''{'' @ join '',''
             (concat (map (\<lambda>p. case serialize (snd p) of None \<Rightarrow> []
                                 | Some t \<Rightarrow> [quote (fst p) @ '':'' @ t]) ps)) @ ''}'')"

definition JSON_stringify :: "json \<Rightarrow> string option" where
  "JSON_stringify v = serialize v"

text \<open>
  \<^verbatim>\<open>new TextEncoder().encode(text)\<close>: the UTF-8 bytes of the string; the argument
  \<^verbatim>\<open>undefined\<close> takes the default, the empty string.
\<close>

definition TextEncoder_encode :: "string option \<Rightarrow> byte list" where
  "TextEncoder_encode text = (case text of None \<Rightarrow> [] | Some s \<Rightarrow> map of_char s)"

text \<open>\<^verbatim>\<open>Number.prototype.toString(16)\<close> on a non-negative integer.\<close>

fun toString16 :: "nat \<Rightarrow> string" where
  "toString16 n =
     (if n < 16 then [hex_digit n] else toString16 (n div 16) @ [hex_digit (n mod 16)])"

declare toString16.simps [simp del]

section \<open>The platform: store, inference, webhook, digest\<close>

record fetch_init =
  init_method :: string
  init_headers :: "(string \<times> string) list"
  init_body :: "string option"

record fetch_response =
  status :: nat

text \<open>\<^verbatim>\<open>response.ok\<close>: the status is in the range 200 to 299.\<close>

definition ok :: "fetch_response \<Rightarrow> bool" where
  "ok r = (200 \<le> status r \<and> status r \<le> 299)"

record ai_response =
  response :: jsval

text \<open>What the worker does to the outside, in the order in which it does it.\<close>

datatype effect =
    ConsoleLog string
  | ConsoleError string jserror
  | Digest string "byte list"
  | KvGet string
  | KvPut string string nat
  | AiRun string "(string \<times> string) list"
  | Fetch string fetch_init

text \<open>
  The state of the outside: the content of the key-value namespace (value and
  \<^verbatim>\<open>expirationTtl\<close> of each key) and the effects so far.
\<close>

record world =
  kv :: "string \<rightharpoonup> string \<times> nat"
  trace :: "effect list"

text \<open>
  The bindings of \<^verbatim>\<open>env\<close> and the globals \<^verbatim>\<open>fetch\<close> and \<^verbatim>\<open>crypto.subtle.digest\<close>.
  Each service answers a call from the effects that precede it and the call's arguments:
  \<^item> \<open>kv_get_fault\<close>, \<open>kv_put_fault\<close>: the error with which a store access rejects, if any;
  \<^item> \<open>AI_run\<close>: the model and the messages (role and content) of an inference call;
  \<^item> \<open>fetch\<close>: the URL and the request of an HTTP call;
  \<^item> \<open>digest\<close>: the algorithm and the bytes; it is a function of its arguments.
\<close>

record env =
  SLACK_WEBHOOK_URL :: string
  kv_get_fault :: "effect list \<Rightarrow> string \<Rightarrow> jserror option"
  kv_put_fault :: "effect list \<Rightarrow> string \<Rightarrow> jserror option"
  AI_run :: "effect list \<Rightarrow> string \<Rightarrow> (string \<times> string) list \<Rightarrow> jserror + ai_response"
  fetch :: "effect list \<Rightarrow> string \<Rightarrow> fetch_init \<Rightarrow> jserror + fetch_response"
  digest :: "string \<Rightarrow> byte list \<Rightarrow> jserror + byte list"

definition emit :: "effect \<Rightarrow> world \<Rightarrow> world" where
  "emit e w = w\<lparr>trace := trace w @ [e]\<rparr>"

text \<open>\<^verbatim>\<open>await env.ERROR_DEDUP_KV.get(key)\<close>: the stored value or \<^verbatim>\<open>null\<close> (\<open>None\<close>).\<close>

definition KV_get :: "env \<Rightarrow> string \<Rightarrow> world \<Rightarrow> (jserror + string option) \<times> world" where
  "KV_get env key w =
     (case kv_get_fault env (trace w) key of
        Some e \<Rightarrow> (Inl e, emit (KvGet key) w)
      | None \<Rightarrow> (Inr (map_option fst (kv w key)), emit (KvGet key) w))"

text \<open>\<^verbatim>\<open>await env.ERROR_DEDUP_KV.put(key, value, { expirationTtl: ttl })\<close>\<close>

definition KV_put :: "env \<Rightarrow> string \<Rightarrow> string \<Rightarrow> nat \<Rightarrow> world \<Rightarrow> (jserror + unit) \<times> world" where
  "KV_put env key v ttl w =
     (case kv_put_fault env (trace w) key of
        Some e \<Rightarrow> (Inl e, emit (KvPut key v ttl) w)
      | None \<Rightarrow> (Inr (), emit (KvPut key v ttl) (w\<lparr>kv := (kv w)(key \<mapsto> (v, ttl))\<rparr>)))"

text \<open>\<^verbatim>\<open>await env.AI.run(model, { messages: [{ role: 'user', content: content }] })\<close>\<close>

definition AI_call :: "env \<Rightarrow> string \<Rightarrow> string \<Rightarrow> world \<Rightarrow> (jserror + ai_response) \<times> world" where
  "AI_call env model content w =
     (AI_run env (trace w) model [(''user'', content)],
      emit (AiRun model [(''user'', content)]) w)"

section \<open>The worker\<close>

subsection \<open>Fingerprint\<close>

text \<open>The object literal \<^verbatim>\<open>errorDetails\<close> of \<^verbatim>\<open>generateErrorHash\<close>.\<close>

definition errorDetails :: "error_context \<Rightarrow> json" where
  "errorDetails context =
     JsonObject [ (''scriptName'', of_jsval (scriptName context)),
                  (''exceptions'', JsonString (exceptions context)),
                  (''url'', of_jsval (url context)),
                  (''method'', of_jsval (method context)) ]"

definition generateErrorHash :: "env \<Rightarrow> error_context \<Rightarrow> world \<Rightarrow> (jserror + string) \<times> world" where
  "generateErrorHash env context w =
     (let text = JSON_stringify (errorDetails context);
          msgBuffer = TextEncoder_encode text
      in case digest env ''SHA-256'' msgBuffer of
           Inl e \<Rightarrow> (Inl e, emit (Digest ''SHA-256'' msgBuffer) w)
         | Inr hashArray \<Rightarrow>
             (Inr (join [] (map (\<lambda>b. padStart 2 CHR ''0'' (toString16 (unat b))) hashArray)),
              emit (Digest ''SHA-256'' msgBuffer) w))"

subsection \<open>Deduplication store\<close>

text \<open>A \<^verbatim>\<open>try\<close> block is the case \<open>Inr\<close> of its last call, the \<^verbatim>\<open>catch\<close> block the case \<open>Inl\<close>.\<close>

definition checkDuplicateError :: "env \<Rightarrow> string \<Rightarrow> world \<Rightarrow> (jserror + bool) \<times> world" where
  "checkDuplicateError env errorHash w =
     (case KV_get env errorHash w of
        (Inr stored, w1) \<Rightarrow> (Inr (stored \<noteq> None), w1)
      | (Inl error, w1) \<Rightarrow> (Inr False, emit (ConsoleError ''Error checking duplicate:'' error) w1))"

definition storeErrorHash :: "env \<Rightarrow> string \<Rightarrow> world \<Rightarrow> (jserror + unit) \<times> world" where
  "storeErrorHash env errorHash w =
     (case KV_put env errorHash ''true'' ERROR_WINDOW w of
        (Inr u, w1) \<Rightarrow> (Inr (), w1)
      | (Inl error, w1) \<Rightarrow> (Inr (), emit (ConsoleError ''Error storing hash:'' error) w1))"

subsection \<open>Analysis\<close>

definition createAIPrompt :: "error_context \<Rightarrow> string" where
  "createAIPrompt context =
     ''Analyze this error and provide a concise summary explaining what went wrong and potential causes. Also think about what the developer could do to fix this error. Include any relevant context from the logs.''
     @ [CHR 0x0A, CHR 0x0A] @ ''Context:''
     @ [CHR 0x0A] @ ''Script: '' @ to_string (scriptName context)
     @ [CHR 0x0A] @ ''URL: '' @ to_string (url context)
     @ [CHR 0x0A] @ ''Method: '' @ to_string (method context)
     @ [CHR 0x0A] @ ''Time: '' @ timestamp context
     @ [CHR 0x0A, CHR 0x0A] @ ''Exceptions:''
     @ [CHR 0x0A] @ exceptions context
     @ [CHR 0x0A, CHR 0x0A] @ ''Logs:''
     @ [CHR 0x0A] @ logs context"

definition analysis_model :: string where
  "analysis_model = ''@cf/deepseek-ai/deepseek-r1-distill-qwen-32b''"

definition summary_model :: string where
  "summary_model = ''@cf/meta/llama-3.3-70b-instruct-fp8-fast''"

definition summaryPrompt :: "ai_response \<Rightarrow> string" where
  "summaryPrompt analysisResponse =
     ''Create a clear, concise summary (2-3 sentences max) of this error analysis and the suggested fix. Focus on the key problem and likely cause:''
     @ [CHR 0x0A, CHR 0x0A] @ to_string (response analysisResponse)"

text \<open>The \<^verbatim>\<open>try\<close> block of \<^verbatim>\<open>generateErrorSummary\<close>.\<close>

definition generateErrorSummary_try :: "env \<Rightarrow> error_context \<Rightarrow> world \<Rightarrow> (jserror + jsval) \<times> world" where
  "generateErrorSummary_try env context w =
     (case AI_call env analysis_model (createAIPrompt context) w of
        (Inl e, w1) \<Rightarrow> (Inl e, w1)
      | (Inr analysisResponse, w1) \<Rightarrow>
          (case AI_call env summary_model (summaryPrompt analysisResponse) w1 of
             (Inl e, w2) \<Rightarrow> (Inl e, w2)
           | (Inr summaryResponse, w2) \<Rightarrow> (Inr (response summaryResponse), w2)))"

definition generateErrorSummary :: "env \<Rightarrow> error_context \<Rightarrow> world \<Rightarrow> (jserror + jsval) \<times> world" where
  "generateErrorSummary env context w =
     (case generateErrorSummary_try env context w of
        (Inr summary, w1) \<Rightarrow> (Inr summary, w1)
      | (Inl error, w1) \<Rightarrow>
          (Inr (JStr ''Unable to generate AI analysis''),
           emit (ConsoleError ''Error generating AI summary:'' error) w1))"

subsection \<open>Notification\<close>

definition createHeaderBlock :: "error_context \<Rightarrow> json" where
  "createHeaderBlock context =
     JsonObject [ (''type'', JsonString ''header''),
                  (''text'', JsonObject
                     [ (''type'', JsonString ''plain_text''),
                       (''text'', JsonString
                          ([CHR 0xE2, CHR 0x9A, CHR 0xA0, CHR 0xEF, CHR 0xB8, CHR 0x8F]
                           @ '' Error in '' @ to_string (scriptName context))),
                       (''emoji'', JsonBool True) ]) ]"

definition createAIAnalysisBlock :: "jsval \<Rightarrow> json" where
  "createAIAnalysisBlock aiSummary =
     JsonObject [ (''type'', JsonString ''section''),
                  (''text'', JsonObject
                     [ (''type'', JsonString ''mrkdwn''),
                       (''text'', JsonString
                          (''*AI Analysis:*'' @ [CHR 0x0A] @ to_string aiSummary)) ]) ]"

definition createContextBlock :: "error_context \<Rightarrow> json" where
  "createContextBlock context =
     JsonObject [ (''type'', JsonString ''section''),
                  (''fields'', JsonArray
                     [ JsonObject
                         [ (''type'', JsonString ''mrkdwn''),
                           (''text'', JsonString
                              (''*URL:*'' @ [CHR 0x0A]
                               @ to_string (or_else (url context) (JStr ''N/A'')))) ],
                       JsonObject
                         [ (''type'', JsonString ''mrkdwn''),
                           (''text'', JsonString
                              (''*Method:*'' @ [CHR 0x0A]
                               @ to_string (or_else (method context) (JStr ''N/A'')))) ],
                       JsonObject
                         [ (''type'', JsonString ''mrkdwn''),
                           (''text'', JsonString
                              (''*Time:*'' @ [CHR 0x0A] @ timestamp context)) ] ]) ]"

definition createExceptionBlock :: "error_context \<Rightarrow> json" where
  "createExceptionBlock context =
     JsonObject [ (''type'', JsonString ''section''),
                  (''text'', JsonObject
                     [ (''type'', JsonString ''mrkdwn''),
                       (''text'', JsonString
                          (''*Exception Details:*'' @ [CHR 0x0A]
                           @ [CHR 0x60, CHR 0x60, CHR 0x60] @ exceptions context
                           @ [CHR 0x60, CHR 0x60, CHR 0x60])) ]) ]"

definition formatSlackMessage :: "error_context \<Rightarrow> jsval \<Rightarrow> json" where
  "formatSlackMessage context aiSummary =
     JsonObject [ (''username'', JsonString ''Error Monitor''),
                  (''icon_emoji'', JsonString '':robot_face:''),
                  (''blocks'', JsonArray
                     [ createHeaderBlock context,
                       createAIAnalysisBlock aiSummary,
                       createContextBlock context,
                       createExceptionBlock context ]) ]"

text \<open>The request that \<^verbatim>\<open>sendToSlack\<close> passes to \<^verbatim>\<open>fetch\<close>.\<close>

definition slack_request :: "json \<Rightarrow> fetch_init" where
  "slack_request message =
     \<lparr> init_method = ''POST'',
       init_headers = [(''Content-Type'', ''application/json'')],
       init_body = JSON_stringify message \<rparr>"

text \<open>The \<^verbatim>\<open>try\<close> block of \<^verbatim>\<open>sendToSlack\<close>.\<close>

definition sendToSlack_try :: "env \<Rightarrow> json \<Rightarrow> world \<Rightarrow> (jserror + unit) \<times> world" where
  "sendToSlack_try env message w =
     (case fetch env (trace w) (SLACK_WEBHOOK_URL env) (slack_request message) of
        Inl e \<Rightarrow> (Inl e, emit (Fetch (SLACK_WEBHOOK_URL env) (slack_request message)) w)
      | Inr r \<Rightarrow>
          (if \<not> ok r
           then (Inl (Error (''Slack API responded with status: '' @ show_nat (status r))),
                 emit (Fetch (SLACK_WEBHOOK_URL env) (slack_request message)) w)
           else (Inr (), emit (Fetch (SLACK_WEBHOOK_URL env) (slack_request message)) w)))"

definition sendToSlack :: "env \<Rightarrow> json \<Rightarrow> world \<Rightarrow> (jserror + unit) \<times> world" where
  "sendToSlack env message w =
     (case sendToSlack_try env message w of
        (Inr u, w1) \<Rightarrow> (Inr (), w1)
      | (Inl error, w1) \<Rightarrow> (Inr (), emit (ConsoleError ''Error sending to Slack:'' error) w1))"

subsection \<open>The tail handler\<close>

text \<open>\<^verbatim>\<open>IGNORE_PATTERNS.some(pattern => pattern.test(context.url))\<close>\<close>

definition ignored :: "error_context \<Rightarrow> bool" where
  "ignored context = list_ex (\<lambda>pattern. test pattern (url context)) IGNORE_PATTERNS"

text \<open>
  The body of the loop of \<^verbatim>\<open>tail\<close> for one event. An exception of a call that no
  \<^verbatim>\<open>try\<close> encloses leaves the body: it is the result \<open>Inl\<close>.
\<close>

definition tail_event :: "env \<Rightarrow> trace_item \<Rightarrow> world \<Rightarrow> (jserror + unit) \<times> world" where
  "tail_event env event w =
     (if ev_outcome event = ''exception'' then
        (case extractContext event of
           Inl e \<Rightarrow> (Inl e, w)
         | Inr context \<Rightarrow>
             if ignored context
             then (Inr (), emit (ConsoleLog (''Ignoring URL: '' @ to_string (url context))) w)
             else
               (case generateErrorHash env context w of
                  (Inl e, w1) \<Rightarrow> (Inl e, w1)
                | (Inr errorHash, w1) \<Rightarrow>
                    (case checkDuplicateError env errorHash w1 of
                       (Inl e, w2) \<Rightarrow> (Inl e, w2)
                     | (Inr isDuplicate, w2) \<Rightarrow>
                         if \<not> isDuplicate then
                           (case generateErrorSummary env context w2 of
                              (Inl e, w3) \<Rightarrow> (Inl e, w3)
                            | (Inr aiSummary, w3) \<Rightarrow>
                                (case sendToSlack env (formatSlackMessage context aiSummary) w3 of
                                   (Inl e, w4) \<Rightarrow> (Inl e, w4)
                                 | (Inr u, w4) \<Rightarrow> storeErrorHash env errorHash w4))
                         else
                           (Inr (), emit (ConsoleLog (''Duplicate error detected, hash: '' @ errorHash)) w2))))
      else (Inr (), w))"

text \<open>
  \<^verbatim>\<open>for (const event of events) { ... }\<close>: an exception that leaves the body of the
  loop leaves \<^verbatim>\<open>tail\<close>, and the remaining events are not visited.
\<close>

fun tail :: "env \<Rightarrow> trace_item list \<Rightarrow> world \<Rightarrow> (jserror + unit) \<times> world" where
  "tail env [] w = (Inr (), w)"
| "tail env (event # events) w =
     (case tail_event env event w of
        (Inl e, w1) \<Rightarrow> (Inl e, w1)
      | (Inr u, w1) \<Rightarrow> tail env events w1)"

section \<open>Conditions on events and services\<close>




text \<open>The bytes that \<^verbatim>\<open>generateErrorHash\<close> hands to the digest.\<close>

definition hash_input :: "error_context \<Rightarrow> byte list" where
  "hash_input context = TextEncoder_encode (JSON_stringify (errorDetails context))"

text \<open>
  The event is one on which context extraction throws, or one that reaches the
  fingerprint and the digest rejects.
\<close>

definition event_throws :: "env \<Rightarrow> trace_item \<Rightarrow> bool" where
  "event_throws env event =
     (ev_outcome event = ''exception'' \<and>
      (case extractContext event of
         Inl e \<Rightarrow> True
       | Inr context \<Rightarrow> \<not> ignored context \<and> isl (digest env ''SHA-256'' (hash_input context))))"

text \<open>The first or the second inference call of \<^verbatim>\<open>generateErrorSummary\<close> rejects.\<close>

definition inference_fails :: "env \<Rightarrow> error_context \<Rightarrow> world \<Rightarrow> bool" where
  "inference_fails env context w =
     (case AI_run env (trace w) analysis_model [(''user'', createAIPrompt context)] of
        Inl e \<Rightarrow> True
      | Inr r \<Rightarrow>
          isl (AI_run env (trace w @ [AiRun analysis_model [(''user'', createAIPrompt context)]])
                 summary_model [(''user'', summaryPrompt r)]))"

text \<open>The webhook call rejects or answers with a status outside 200 to 299.\<close>

definition delivery_fails :: "env \<Rightarrow> json \<Rightarrow> world \<Rightarrow> bool" where
  "delivery_fails env message w =
     (case fetch env (trace w) (SLACK_WEBHOOK_URL env) (slack_request message) of
        Inl e \<Rightarrow> True
      | Inr r \<Rightarrow> \<not> ok r)"

section \<open>Sample events and services\<close>

text \<open>A platform on which every service answers; the digest is a two-byte checksum.\<close>

definition env_up :: env where
  "env_up =
     \<lparr> SLACK_WEBHOOK_URL = ''https://hooks.example/services/T'',
       kv_get_fault = (\<lambda>h k. None),
       kv_put_fault = (\<lambda>h k. None),
       AI_run = (\<lambda>h m msgs. Inr \<lparr> response = JStr ''summary'' \<rparr>),
       fetch = (\<lambda>h u i. Inr \<lparr> status = 200 \<rparr>),
       digest = (\<lambda>a bs. Inr [of_nat (length bs), foldr (+) bs 0]) \<rparr>"

definition env_kv_down :: env where
  "env_kv_down = env_up \<lparr> kv_get_fault := (\<lambda>h k. Some (Error ''KV unavailable'')) \<rparr>"

definition env_ai_down :: env where
  "env_ai_down = env_up \<lparr> AI_run := (\<lambda>h m msgs. Inl (Error ''AI unavailable'')) \<rparr>"

definition env_summary_down :: env where
  "env_summary_down =
     env_up \<lparr> AI_run := (\<lambda>h m msgs. if m = summary_model then Inl (Error ''AI unavailable'')
                                 else Inr \<lparr> response = JStr ''analysis'' \<rparr>) \<rparr>"

definition env_slack_unreachable :: env where
  "env_slack_unreachable = env_up \<lparr> fetch := (\<lambda>h u i. Inl (TypeError ''fetch failed'')) \<rparr>"

definition env_slack_500 :: env where
  "env_slack_500 = env_up \<lparr> fetch := (\<lambda>h u i. Inr \<lparr> status = 500 \<rparr>) \<rparr>"

definition env_no_digest :: env where
  "env_no_digest = env_up \<lparr> digest := (\<lambda>a bs. Inl (Error ''digest unavailable'')) \<rparr>"

definition w_empty :: world where
  "w_empty = \<lparr> kv = Map.empty, trace = [] \<rparr>"

text \<open>The event of the end-to-end scenario, at 2024-11-03T07:00:00.123Z.\<close>

definition ev_order :: trace_item where
  "ev_order =
     \<lparr> ev_outcome = ''exception'',
       ev_eventTimestamp = NNum 1730617200123,
       ev_scriptName = JStr ''api'',
       ev_event = Some \<lparr> request = Some \<lparr> req_url = JStr ''/orders/42'', req_method = JStr ''POST'' \<rparr> \<rparr>,
       ev_logs = Items [],
       ev_exceptions = Items [Some \<lparr> ex_name = JStr ''TypeError'', ex_message = JStr ''x is undefined'' \<rparr>] \<rparr>"

definition ctx_order :: error_context where
  "ctx_order =
     \<lparr> timestamp = ''2024-11-03T07:00:00.123Z'',
       scriptName = JStr ''api'',
       url = JStr ''/orders/42'',
       method = JStr ''POST'',
       logs = [],
       exceptions = ''TypeError: x is undefined'' \<rparr>"

text \<open>The world after \<open>ev_order\<close> has been reported once on \<open>env_up\<close>.\<close>

definition w_seen :: world where
  "w_seen = \<lparr> kv = [''60cf'' \<mapsto> (''true'', 3600)], trace = [] \<rparr>"

definition ev_favicon :: trace_item where
  "ev_favicon =
     ev_order \<lparr> ev_event := Some \<lparr> request = Some \<lparr> req_url = JStr ''favicon.ico'', req_method = JStr ''GET'' \<rparr> \<rparr> \<rparr>"

definition ctx_favicon :: error_context where
  "ctx_favicon = ctx_order \<lparr> url := JStr ''favicon.ico'', method := JStr ''GET'' \<rparr>"

text \<open>An event without request information, as a scheduled run has it.\<close>

definition ev_no_request :: trace_item where
  "ev_no_request = ev_order \<lparr> ev_event := None \<rparr>"

definition ctx_no_request :: error_context where
  "ctx_no_request = ctx_order \<lparr> url := JUndefined, method := JUndefined \<rparr>"

text \<open>An event with a log entry that has no timestamp.\<close>

definition ev_log_without_time :: trace_item where
  "ev_log_without_time =
     ev_order \<lparr> ev_logs := Items [Some \<lparr> log_timestamp = NUndefined, log_level = JStr ''log'',
                                          log_message = JStr ''started'' \<rparr>] \<rparr>"






section \<open>Facts about the noise filter and the services\<close>

lemma match_here_lits:
  "match_here (lits l @ r) b s \<longleftrightarrow> (\<exists>rest. s = l @ rest \<and> match_here r (b \<and> l = []) rest)"
proof (induction l arbitrary: b s)
  case Nil
  show ?case by (simp add: lits_def)
next
  case (Cons x l)
  show ?case
  proof (cases s)
    case Nil
    then show ?thesis by (simp add: lits_def)
  next
    case (Cons y ys)
    have "match_here (lits (x # l) @ r) b (y # ys) \<longleftrightarrow> y = x \<and> match_here (lits l @ r) False ys"
      by (simp add: lits_def)
    also have "\<dots> \<longleftrightarrow> y = x \<and> (\<exists>rest. ys = l @ rest \<and> match_here r False rest)"
      using Cons.IH [of False ys] by simp
    finally show ?thesis using Cons by auto
  qed
qed

lemma match_here_Eol: "match_here [Eol] b s \<longleftrightarrow> s = []"
  by simp

lemma match_here_OneOrMore:
  "match_here (OneOrMore c # r) b s \<longleftrightarrow>
     (\<exists>n rest. s = n @ rest \<and> n \<noteq> [] \<and> (\<forall>x\<in>set n. in_cls c x) \<and> match_here r False rest)"
proof (induction s arbitrary: b)
  case Nil
  show ?case by simp
next
  case (Cons x xs)
  show ?case (is "?L \<longleftrightarrow> ?R")
  proof
    assume ?L
    then have x: "in_cls c x" and
      d: "match_here (OneOrMore c # r) False xs \<or> match_here r False xs" by simp_all
    from d show ?R
    proof
      assume "match_here (OneOrMore c # r) False xs"
      then obtain n rest where "xs = n @ rest" "n \<noteq> []" "\<forall>x\<in>set n. in_cls c x" "match_here r False rest"
        using Cons.IH [of False] by blast
      with x have "x # xs = (x # n) @ rest \<and> x # n \<noteq> [] \<and> (\<forall>y\<in>set (x # n). in_cls c y) \<and> match_here r False rest"
        by simp
      then show ?R by blast
    next
      assume "match_here r False xs"
      with x have "x # xs = [x] @ xs \<and> [x] \<noteq> [] \<and> (\<forall>y\<in>set [x]. in_cls c y) \<and> match_here r False xs"
        by simp
      then show ?R by blast
    qed
  next
    assume ?R
    then obtain n rest where s: "x # xs = n @ rest" and n: "n \<noteq> []"
      and a: "\<forall>x\<in>set n. in_cls c x" and m: "match_here r False rest" by blast
    from n obtain y n' where n': "n = y # n'" by (cases n) auto
    with s have xy: "y = x" and xs: "xs = n' @ rest" by simp_all
    from a n' xy have x: "in_cls c x" by simp
    show ?L
    proof (cases "n' = []")
      case True
      with xs m x show ?thesis by simp
    next
      case False
      with a n' xs m have "match_here (OneOrMore c # r) False xs"
        using Cons.IH [of False] by auto
      with x show ?thesis by simp
    qed
  qed
qed

lemma search_Bol: "search (Bol # r) s \<longleftrightarrow> match_here r True s"
proof -
  have "search (Bol # r) s \<longleftrightarrow> (\<exists>i\<in>set [0..<Suc (length s)]. i = 0 \<and> match_here r (i = 0) (drop i s))"
    by (simp add: search_def list_ex_iff)
  also have "\<dots> \<longleftrightarrow> match_here r True s"
    by auto
  finally show ?thesis .
qed

lemma in_cls_NotChar_all: "(\<forall>x\<in>set n. in_cls (NotChar c) x) \<longleftrightarrow> c \<notin> set n"
  by auto

lemma favicon_pattern:
  "search ([Bol] @ lits ''favicon.'' @ [OneOrMore (NotChar CHR ''/''), Eol]) s \<longleftrightarrow>
     (\<exists>ext. s = ''favicon.'' @ ext \<and> ext \<noteq> [] \<and> CHR ''/'' \<notin> set ext)"
proof -
  have "search ([Bol] @ lits ''favicon.'' @ [OneOrMore (NotChar CHR ''/''), Eol]) s \<longleftrightarrow>
        (\<exists>rest. s = ''favicon.'' @ rest \<and> match_here [OneOrMore (NotChar CHR ''/''), Eol] False rest)"
    using search_Bol [of "lits ''favicon.'' @ [OneOrMore (NotChar CHR ''/''), Eol]" s]
      match_here_lits [of "''favicon.''" "[OneOrMore (NotChar CHR ''/''), Eol]" True s]
    by simp
  also have "\<dots> \<longleftrightarrow> (\<exists>ext. s = ''favicon.'' @ ext \<and> ext \<noteq> [] \<and> CHR ''/'' \<notin> set ext)"
    unfolding match_here_OneOrMore [of "NotChar CHR ''/''" "[Eol]"] in_cls_NotChar_all match_here_Eol
    by auto
  finally show ?thesis .
qed

lemma robots_pattern:
  "search ([Bol] @ lits ''robots.txt'' @ [Eol]) s \<longleftrightarrow> s = ''robots.txt''"
  using search_Bol [of "lits ''robots.txt'' @ [Eol]" s]
    match_here_lits [of "''robots.txt''" "[Eol]" True s]
  by auto

lemma apple_pattern:
  "search ([Bol] @ lits ''apple-'' @ [OneOrMore (NotChar CHR ''/'')] @ lits ''.png'' @ [Eol]) s \<longleftrightarrow>
     (\<exists>name. s = ''apple-'' @ name @ ''.png'' \<and> name \<noteq> [] \<and> CHR ''/'' \<notin> set name)"
proof -
  have "search ([Bol] @ lits ''apple-'' @ [OneOrMore (NotChar CHR ''/'')] @ lits ''.png'' @ [Eol]) s \<longleftrightarrow>
        (\<exists>rest. s = ''apple-'' @ rest \<and> match_here (OneOrMore (NotChar CHR ''/'') # lits ''.png'' @ [Eol]) False rest)"
    using search_Bol [of "lits ''apple-'' @ [OneOrMore (NotChar CHR ''/'')] @ lits ''.png'' @ [Eol]" s]
      match_here_lits [of "''apple-''" "[OneOrMore (NotChar CHR ''/'')] @ lits ''.png'' @ [Eol]" True s]
    by simp
  also have "\<dots> \<longleftrightarrow> (\<exists>name. s = ''apple-'' @ name @ ''.png'' \<and> name \<noteq> [] \<and> CHR ''/'' \<notin> set name)"
    unfolding match_here_OneOrMore [of "NotChar CHR ''/''" "lits ''.png'' @ [Eol]"] in_cls_NotChar_all
      match_here_lits [of "''.png''" "[Eol]" False] match_here_Eol
    by auto
  finally show ?thesis .
qed

lemma ignored_iff:
  "ignored context \<longleftrightarrow>
     (\<exists>ext. to_string (url context) = ''favicon.'' @ ext \<and> ext \<noteq> [] \<and> CHR ''/'' \<notin> set ext)
     \<or> to_string (url context) = ''robots.txt''
     \<or> (\<exists>name. to_string (url context) = ''apple-'' @ name @ ''.png'' \<and> name \<noteq> [] \<and> CHR ''/'' \<notin> set name)"
  unfolding ignored_def IGNORE_PATTERNS_def test_def list_ex_Cons_iff list_ex_Nil_iff favicon_pattern robots_pattern apple_pattern
  by simp


lemma generateErrorHash_snd:
  "snd (generateErrorHash env context w) = emit (Digest ''SHA-256'' (hash_input context)) w"
  by (simp add: generateErrorHash_def hash_input_def Let_def split: sum.splits)

lemma generateErrorHash_fst:
  "fst (generateErrorHash env context w) =
     (case digest env ''SHA-256'' (hash_input context) of
        Inl e \<Rightarrow> Inl e
      | Inr hashArray \<Rightarrow> Inr (join [] (map (\<lambda>b. padStart 2 CHR ''0'' (toString16 (unat b))) hashArray)))"
  by (simp add: generateErrorHash_def hash_input_def Let_def split: sum.splits)

lemma checkDuplicateError_eq:
  "checkDuplicateError env errorHash w =
     (case kv_get_fault env (trace w) errorHash of
        None \<Rightarrow> (Inr (kv w errorHash \<noteq> None), emit (KvGet errorHash) w)
      | Some error \<Rightarrow>
          (Inr False, emit (ConsoleError ''Error checking duplicate:'' error) (emit (KvGet errorHash) w)))"
  by (simp add: checkDuplicateError_def KV_get_def split: option.splits)

lemma storeErrorHash_eq:
  "storeErrorHash env errorHash w =
     (case kv_put_fault env (trace w) errorHash of
        None \<Rightarrow> (Inr (), emit (KvPut errorHash ''true'' 3600) (w\<lparr>kv := (kv w)(errorHash \<mapsto> (''true'', 3600))\<rparr>))
      | Some error \<Rightarrow>
          (Inr (), emit (ConsoleError ''Error storing hash:'' error) (emit (KvPut errorHash ''true'' 3600) w)))"
  by (simp add: storeErrorHash_def KV_put_def ERROR_WINDOW_def split: option.splits)

lemma generateErrorSummary_returns:
  "\<exists>summary rest. generateErrorSummary env context w =
     (Inr summary, w\<lparr>trace := trace w @ AiRun analysis_model [(''user'', createAIPrompt context)] # rest\<rparr>)"
  by (auto simp: generateErrorSummary_def generateErrorSummary_try_def AI_call_def emit_def
      split: sum.splits prod.splits)

lemma generateErrorSummary_fallback:
  "inference_fails env context w \<Longrightarrow>
     fst (generateErrorSummary env context w) = Inr (JStr ''Unable to generate AI analysis'')"
  by (auto simp: inference_fails_def generateErrorSummary_def generateErrorSummary_try_def AI_call_def emit_def
      split: sum.splits prod.splits)

lemma sendToSlack_returns:
  "\<exists>rest. sendToSlack env message w =
     (Inr (), w\<lparr>trace := trace w @ Fetch (SLACK_WEBHOOK_URL env) (slack_request message) # rest\<rparr>)"
  by (auto simp: sendToSlack_def sendToSlack_try_def emit_def split: sum.splits prod.splits)

lemma sendToSlack_failure:
  "delivery_fails env message w \<Longrightarrow>
     \<exists>error. sendToSlack env message w =
       (Inr (), w\<lparr>trace := trace w @ [Fetch (SLACK_WEBHOOK_URL env) (slack_request message),
                                       ConsoleError ''Error sending to Slack:'' error]\<rparr>)"
  by (auto simp: delivery_fails_def sendToSlack_def sendToSlack_try_def emit_def split: sum.splits prod.splits)


lemma tail_event_not_ignored:
  assumes "ev_outcome event = ''exception''"
    and "extractContext event = Inr context"
    and "\<not> ignored context"
    and "generateErrorHash env context w = (Inr errorHash, w1)"
  shows "tail_event env event w =
     (case checkDuplicateError env errorHash w1 of
        (Inl e, w2) \<Rightarrow> (Inl e, w2)
      | (Inr isDuplicate, w2) \<Rightarrow>
          if \<not> isDuplicate then
            (case generateErrorSummary env context w2 of
               (Inl e, w3) \<Rightarrow> (Inl e, w3)
             | (Inr aiSummary, w3) \<Rightarrow>
                 (case sendToSlack env (formatSlackMessage context aiSummary) w3 of
                    (Inl e, w4) \<Rightarrow> (Inl e, w4)
                  | (Inr u, w4) \<Rightarrow> storeErrorHash env errorHash w4))
          else (Inr (), emit (ConsoleLog (''Duplicate error detected, hash: '' @ errorHash)) w2))"
  using assms by (simp add: tail_event_def)

lemma tail_event_notify:
  assumes "ev_outcome event = ''exception''"
    and "extractContext event = Inr context"
    and "\<not> ignored context"
    and "generateErrorHash env context w = (Inr errorHash, w1)"
    and "checkDuplicateError env errorHash w1 = (Inr False, w2)"
    and "generateErrorSummary env context w2 = (Inr aiSummary, w3)"
    and "sendToSlack env (formatSlackMessage context aiSummary) w3 = (Inr (), w4)"
  shows "tail_event env event w = storeErrorHash env errorHash w4"
  using assms by (simp add: tail_event_not_ignored)

lemma storeErrorHash_fst: "fst (storeErrorHash env errorHash w) = Inr ()"
  by (simp add: storeErrorHash_eq split: option.splits)

lemma storeErrorHash_trace:
  "\<exists>rest. trace (snd (storeErrorHash env errorHash w)) = trace w @ KvPut errorHash ''true'' 3600 # rest"
  by (simp add: storeErrorHash_eq emit_def split: option.splits)

lemma storeErrorHash_issues_put:
  "KvPut errorHash ''true'' 3600 \<in> set (trace (snd (storeErrorHash env errorHash w)))"
  by (simp add: storeErrorHash_eq emit_def split: option.splits)

lemma storeErrorHash_kv:
  "kv_put_fault env (trace w) errorHash = None \<Longrightarrow>
     kv (snd (storeErrorHash env errorHash w)) errorHash = Some (''true'', 3600)"
  by (simp add: storeErrorHash_eq emit_def)

section \<open>The claims\<close>

subsection \<open>Fingerprint, duplicates and the noise filter\<close>

text \<open>
  Claim C1. Two error contexts that agree on \<open>scriptName\<close>, \<open>exceptions\<close>, \<open>url\<close> and
  \<open>method\<close> get the same result from \<open>generateErrorHash\<close>, whatever their \<open>timestamp\<close>
  and \<open>logs\<close> are: the same fingerprint (or the same rejection of the digest) and the
  same bytes handed to the digest.
\<close>

theorem fingerprint_ignores_timestamp_and_logs:
  assumes "scriptName c1 = scriptName c2"
    and "exceptions c1 = exceptions c2"
    and "url c1 = url c2"
    and "method c1 = method c2"
  shows "generateErrorHash env c1 w = generateErrorHash env c2 w"
  using assms by (simp add: generateErrorHash_def errorDetails_def)

text \<open>
  Claim C2. When the duplicate check of an event answers true, the body of the loop adds
  three effects and no other: the digest, the store lookup and the console line about the
  duplicate. There is no inference call, no webhook call and no store write, the store is
  unchanged, and the loop goes on with the next event.
\<close>

theorem duplicate_is_only_logged:
  assumes "ev_outcome event = ''exception''"
    and "extractContext event = Inr context"
    and "\<not> ignored context"
    and "generateErrorHash env context w = (Inr errorHash, w1)"
    and "fst (checkDuplicateError env errorHash w1) = Inr True"
  shows "tail_event env event w =
           (Inr (), w\<lparr>trace := trace w @ [Digest ''SHA-256'' (hash_input context), KvGet errorHash,
                       ConsoleLog (''Duplicate error detected, hash: '' @ errorHash)]\<rparr>)
         \<and> tail env (event # events) w =
           tail env events
             (w\<lparr>trace := trace w @ [Digest ''SHA-256'' (hash_input context), KvGet errorHash,
                       ConsoleLog (''Duplicate error detected, hash: '' @ errorHash)]\<rparr>)"
proof -
  have w1: "w1 = emit (Digest ''SHA-256'' (hash_input context)) w"
    using assms(4) generateErrorHash_snd [of env "context" w] by simp
  have dup: "checkDuplicateError env errorHash w1 = (Inr True, emit (KvGet errorHash) w1)"
    using assms(5) by (simp add: checkDuplicateError_eq split: option.splits)
  have "tail_event env event w =
      (Inr (), emit (ConsoleLog (''Duplicate error detected, hash: '' @ errorHash)) (emit (KvGet errorHash) w1))"
    using assms(1-4) dup by (simp add: tail_event_not_ignored)
  then have ev: "tail_event env event w =
      (Inr (), w\<lparr>trace := trace w @ [Digest ''SHA-256'' (hash_input context), KvGet errorHash,
                  ConsoleLog (''Duplicate error detected, hash: '' @ errorHash)]\<rparr>)"
    by (simp add: w1 emit_def)
  then show ?thesis by simp
qed

text \<open>
  Claim C6. An exceptional event whose extracted url is \<^verbatim>\<open>robots.txt\<close>,
  \<^verbatim>\<open>apple-touch-icon.png\<close> or \<^verbatim>\<open>favicon.\<close> followed by an extension (one or more
  characters, none of them a slash) is dropped: the only effect of the loop body is the
  console line, so no digest is computed and the store, the inference service and the
  webhook are not called.
\<close>

theorem junk_url_is_dropped_before_fingerprinting:
  assumes "ev_outcome event = ''exception''"
    and "extractContext event = Inr context"
    and "url context = JStr u"
    and "u = ''robots.txt'' \<or> u = ''apple-touch-icon.png''
         \<or> (\<exists>ext. u = ''favicon.'' @ ext \<and> ext \<noteq> [] \<and> CHR ''/'' \<notin> set ext)"
  shows "tail_event env event w = (Inr (), w\<lparr>trace := trace w @ [ConsoleLog (''Ignoring URL: '' @ u)]\<rparr>)"
proof -
  have "''apple-touch-icon.png'' = ''apple-'' @ ''touch-icon'' @ ''.png'' \<and> ''touch-icon'' \<noteq> []
        \<and> CHR ''/'' \<notin> set ''touch-icon''"
    by simp
  then have "\<exists>name. ''apple-touch-icon.png'' = ''apple-'' @ name @ ''.png'' \<and> name \<noteq> [] \<and> CHR ''/'' \<notin> set name"
    by blast
  with assms(3,4) have "ignored context"
    unfolding ignored_iff by auto
  with assms(1-3) show ?thesis
    by (simp add: tail_event_def emit_def)
qed


lemma extract_order: "extractContext ev_order = Inr ctx_order"
  by code_simp

lemma extract_favicon: "extractContext ev_favicon = Inr ctx_favicon"
  by code_simp

lemma extract_no_request: "extractContext ev_no_request = Inr ctx_no_request"
  by code_simp

lemma not_ignored_order: "\<not> ignored ctx_order"
  by code_simp

lemma digest_order:
  assumes "digest env = digest env_up"
  shows "generateErrorHash env ctx_order w = (Inr ''60cf'', emit (Digest ''SHA-256'' (hash_input ctx_order)) w)"
proof -
  have "(case digest env_up ''SHA-256'' (hash_input ctx_order) of
           Inl e \<Rightarrow> Inl e
         | Inr hashArray \<Rightarrow> Inr (join [] (map (\<lambda>b. padStart 2 CHR ''0'' (toString16 (unat b))) hashArray)))
        = (Inr ''60cf'' :: jserror + string)"
    by code_simp
  then have "fst (generateErrorHash env ctx_order w) = Inr ''60cf''"
    using assms by (simp add: generateErrorHash_fst)
  then show ?thesis
    using generateErrorHash_snd [of env ctx_order w] by (simp add: prod_eq_iff)
qed

theorem fingerprint_ignores_timestamp_and_logs_witness:
  "timestamp (ctx_order\<lparr>timestamp := ''2025-01-01T00:00:00.000Z'', logs := ''noise''\<rparr>) \<noteq> timestamp ctx_order
   \<and> logs (ctx_order\<lparr>timestamp := ''2025-01-01T00:00:00.000Z'', logs := ''noise''\<rparr>) \<noteq> logs ctx_order
   \<and> generateErrorHash env_up (ctx_order\<lparr>timestamp := ''2025-01-01T00:00:00.000Z'', logs := ''noise''\<rparr>) w_empty
       = generateErrorHash env_up ctx_order w_empty"
  using fingerprint_ignores_timestamp_and_logs
    [of "ctx_order\<lparr>timestamp := ''2025-01-01T00:00:00.000Z'', logs := ''noise''\<rparr>" ctx_order env_up w_empty]
  by (simp add: ctx_order_def)

theorem duplicate_is_only_logged_witness:
  "tail_event env_up ev_order w_seen =
     (Inr (), w_seen\<lparr>trace := [Digest ''SHA-256'' (hash_input ctx_order), KvGet ''60cf'',
                                ConsoleLog ''Duplicate error detected, hash: 60cf'']\<rparr>)"
proof -
  have h: "generateErrorHash env_up ctx_order w_seen =
      (Inr ''60cf'', emit (Digest ''SHA-256'' (hash_input ctx_order)) w_seen)"
    by (simp add: digest_order)
  have d: "fst (checkDuplicateError env_up ''60cf'' (emit (Digest ''SHA-256'' (hash_input ctx_order)) w_seen)) = Inr True"
    by (simp add: checkDuplicateError_eq env_up_def w_seen_def emit_def)
  have o: "ev_outcome ev_order = ''exception''"
    by (simp add: ev_order_def)
  show ?thesis
    using duplicate_is_only_logged [OF o extract_order not_ignored_order h d, of "[]"]
    by (simp add: w_seen_def)
qed

theorem junk_url_is_dropped_before_fingerprinting_witness:
  "tail_event env_up ev_favicon w_empty = (Inr (), w_empty\<lparr>trace := [ConsoleLog ''Ignoring URL: favicon.ico'']\<rparr>)"
proof -
  have o: "ev_outcome ev_favicon = ''exception''"
    by (simp add: ev_favicon_def ev_order_def)
  have u: "url ctx_favicon = JStr ''favicon.ico''"
    by (simp add: ctx_favicon_def)
  have "''favicon.ico'' = ''favicon.'' @ ''ico'' \<and> ''ico'' \<noteq> [] \<and> CHR ''/'' \<notin> set ''ico''"
    by simp
  then have e: "''favicon.ico'' = ''robots.txt'' \<or> ''favicon.ico'' = ''apple-touch-icon.png''
         \<or> (\<exists>ext. ''favicon.ico'' = ''favicon.'' @ ext \<and> ext \<noteq> [] \<and> CHR ''/'' \<notin> set ext)"
    by blast
  show ?thesis
    using junk_url_is_dropped_before_fingerprinting [OF o extract_favicon u e, of env_up w_empty]
    by (simp add: w_empty_def)
qed

subsection \<open>Failures of the store, the inference service and the webhook\<close>

lemma notify_path:
  assumes "ev_outcome event = ''exception''"
    and "extractContext event = Inr context"
    and "\<not> ignored context"
    and "generateErrorHash env context w = (Inr errorHash, w1)"
    and "checkDuplicateError env errorHash w1 = (Inr False, w2)"
  obtains aiSummary w3 w4 r3 r4 r5 where
      "generateErrorSummary env context w2 = (Inr aiSummary, w3)"
    and "trace w3 = trace w2 @ AiRun analysis_model [(''user'', createAIPrompt context)] # r3"
    and "sendToSlack env (formatSlackMessage context aiSummary) w3 = (Inr (), w4)"
    and "trace w4 = trace w3 @ Fetch (SLACK_WEBHOOK_URL env) (slack_request (formatSlackMessage context aiSummary)) # r4"
    and "tail_event env event w = storeErrorHash env errorHash w4"
    and "fst (tail_event env event w) = Inr ()"
    and "trace (snd (tail_event env event w)) = trace w4 @ KvPut errorHash ''true'' 3600 # r5"
proof -
  obtain aiSummary r3 where s: "generateErrorSummary env context w2 =
      (Inr aiSummary, w2\<lparr>trace := trace w2 @ AiRun analysis_model [(''user'', createAIPrompt context)] # r3\<rparr>)"
    using generateErrorSummary_returns [of env "context" w2] by blast
  let ?w3 = "w2\<lparr>trace := trace w2 @ AiRun analysis_model [(''user'', createAIPrompt context)] # r3\<rparr>"
  obtain r4 where d: "sendToSlack env (formatSlackMessage context aiSummary) ?w3 =
      (Inr (), ?w3\<lparr>trace := trace ?w3 @ Fetch (SLACK_WEBHOOK_URL env) (slack_request (formatSlackMessage context aiSummary)) # r4\<rparr>)"
    using sendToSlack_returns [of env "formatSlackMessage context aiSummary" ?w3] by blast
  let ?w4 = "?w3\<lparr>trace := trace ?w3 @ Fetch (SLACK_WEBHOOK_URL env) (slack_request (formatSlackMessage context aiSummary)) # r4\<rparr>"
  have t: "tail_event env event w = storeErrorHash env errorHash ?w4"
    using tail_event_notify [OF assms s d] .
  obtain r5 where p: "trace (snd (storeErrorHash env errorHash ?w4)) = trace ?w4 @ KvPut errorHash ''true'' 3600 # r5"
    using storeErrorHash_trace [of env errorHash ?w4] by (elim exE)
  have f: "fst (storeErrorHash env errorHash ?w4) = Inr ()"
    by (rule storeErrorHash_fst)
  show thesis
  proof (rule that)
    show "generateErrorSummary env context w2 = (Inr aiSummary, ?w3)" by (rule s)
    show "trace ?w3 = trace w2 @ AiRun analysis_model [(''user'', createAIPrompt context)] # r3" by simp
    show "sendToSlack env (formatSlackMessage context aiSummary) ?w3 = (Inr (), ?w4)" by (rule d)
    show "trace ?w4 = trace ?w3 @ Fetch (SLACK_WEBHOOK_URL env) (slack_request (formatSlackMessage context aiSummary)) # r4"
      by simp
    show "tail_event env event w = storeErrorHash env errorHash ?w4" by (rule t)
    show "fst (tail_event env event w) = Inr ()" by (simp only: t f)
    show "trace (snd (tail_event env event w)) = trace ?w4 @ KvPut errorHash ''true'' 3600 # r5"
      by (simp only: t p)
  qed
qed


text \<open>
  Claim C3. When the store lookup rejects, \<open>checkDuplicateError\<close> returns false and logs
  the error instead of throwing. In the loop body the event then goes through analysis,
  delivery and the store write: the first inference call and the webhook call are among
  the effects of the event, and the body returns normally.
\<close>

theorem lookup_failure_is_fail_open:
  assumes "kv_get_fault env (trace w1) errorHash = Some error"
  shows "checkDuplicateError env errorHash w1 =
           (Inr False, w1\<lparr>trace := trace w1 @ [KvGet errorHash, ConsoleError ''Error checking duplicate:'' error]\<rparr>)
         \<and> (ev_outcome event = ''exception'' \<and> extractContext event = Inr context \<and> \<not> ignored context
              \<and> generateErrorHash env context w = (Inr errorHash, w1) \<longrightarrow>
              (\<exists>aiSummary.
                  fst (tail_event env event w) = Inr ()
                \<and> AiRun analysis_model [(''user'', createAIPrompt context)]
                    \<in> set (trace (snd (tail_event env event w)))
                \<and> Fetch (SLACK_WEBHOOK_URL env) (slack_request (formatSlackMessage context aiSummary))
                    \<in> set (trace (snd (tail_event env event w)))
                \<and> KvPut errorHash ''true'' 3600 \<in> set (trace (snd (tail_event env event w)))))"
proof -
  let ?w2 = "w1\<lparr>trace := trace w1 @ [KvGet errorHash, ConsoleError ''Error checking duplicate:'' error]\<rparr>"
  have c: "checkDuplicateError env errorHash w1 = (Inr False, ?w2)"
    using assms by (simp add: checkDuplicateError_eq emit_def)
  have n: "\<exists>aiSummary.
          fst (tail_event env event w) = Inr ()
        \<and> AiRun analysis_model [(''user'', createAIPrompt context)] \<in> set (trace (snd (tail_event env event w)))
        \<and> Fetch (SLACK_WEBHOOK_URL env) (slack_request (formatSlackMessage context aiSummary))
            \<in> set (trace (snd (tail_event env event w)))
        \<and> KvPut errorHash ''true'' 3600 \<in> set (trace (snd (tail_event env event w)))"
    if h: "ev_outcome event = ''exception''" "extractContext event = Inr context" "\<not> ignored context"
      "generateErrorHash env context w = (Inr errorHash, w1)"
  proof -
    from h c obtain aiSummary w3 w4 r3 r4 r5 where
      s: "generateErrorSummary env context ?w2 = (Inr aiSummary, w3)" and
      t3: "trace w3 = trace ?w2 @ AiRun analysis_model [(''user'', createAIPrompt context)] # r3" and
      d: "sendToSlack env (formatSlackMessage context aiSummary) w3 = (Inr (), w4)" and
      t4: "trace w4 = trace w3 @ Fetch (SLACK_WEBHOOK_URL env) (slack_request (formatSlackMessage context aiSummary)) # r4" and
      t: "tail_event env event w = storeErrorHash env errorHash w4" and
      f: "fst (tail_event env event w) = Inr ()" and
      t5: "trace (snd (tail_event env event w)) = trace w4 @ KvPut errorHash ''true'' 3600 # r5"
      by (rule notify_path)
    have g: "fst (tail_event env event w) = Inr ()
        \<and> AiRun analysis_model [(''user'', createAIPrompt context)] \<in> set (trace (snd (tail_event env event w)))
        \<and> Fetch (SLACK_WEBHOOK_URL env) (slack_request (formatSlackMessage context aiSummary))
            \<in> set (trace (snd (tail_event env event w)))
        \<and> KvPut errorHash ''true'' 3600 \<in> set (trace (snd (tail_event env event w)))"
      unfolding t5 t4 t3 using f by simp
    show ?thesis by (rule exI [of _ aiSummary]) (rule g)
  qed
  show ?thesis
  proof (intro conjI impI)
    show "checkDuplicateError env errorHash w1 = (Inr False, ?w2)"
      by (rule c)
  next
    assume "ev_outcome event = ''exception'' \<and> extractContext event = Inr context \<and> \<not> ignored context
              \<and> generateErrorHash env context w = (Inr errorHash, w1)"
    then have "ev_outcome event = ''exception''" "extractContext event = Inr context" "\<not> ignored context"
      "generateErrorHash env context w = (Inr errorHash, w1)"
      by blast+
    then show "\<exists>aiSummary.
          fst (tail_event env event w) = Inr ()
        \<and> AiRun analysis_model [(''user'', createAIPrompt context)] \<in> set (trace (snd (tail_event env event w)))
        \<and> Fetch (SLACK_WEBHOOK_URL env) (slack_request (formatSlackMessage context aiSummary))
            \<in> set (trace (snd (tail_event env event w)))
        \<and> KvPut errorHash ''true'' 3600 \<in> set (trace (snd (tail_event env event w)))"
      by (rule n)
  qed
qed


text \<open>
  Claim C4. For an event that is neither ignored nor a duplicate, a webhook call that
  rejects or answers with a status outside 200 to 299 is caught in \<open>sendToSlack\<close>: it
  returns normally after the console line with the error. The loop body then runs
  \<open>storeErrorHash\<close> and returns normally; the store write for the fingerprint with the
  value \<^verbatim>\<open>true\<close> and 3600 seconds is issued, and the store holds that entry afterwards
  unless the write itself rejects.
\<close>

theorem delivery_failure_still_records:
  assumes "ev_outcome event = ''exception''"
    and "extractContext event = Inr context"
    and "\<not> ignored context"
    and "generateErrorHash env context w = (Inr errorHash, w1)"
    and "checkDuplicateError env errorHash w1 = (Inr False, w2)"
    and "generateErrorSummary env context w2 = (Inr aiSummary, w3)"
    and "delivery_fails env (formatSlackMessage context aiSummary) w3"
  shows "\<exists>error w4.
            w4 = w3\<lparr>trace := trace w3 @ [Fetch (SLACK_WEBHOOK_URL env) (slack_request (formatSlackMessage context aiSummary)),
                                          ConsoleError ''Error sending to Slack:'' error]\<rparr>
          \<and> sendToSlack env (formatSlackMessage context aiSummary) w3 = (Inr (), w4)
          \<and> tail_event env event w = storeErrorHash env errorHash w4
          \<and> fst (tail_event env event w) = Inr ()
          \<and> KvPut errorHash ''true'' 3600 \<in> set (trace (snd (tail_event env event w)))
          \<and> (kv_put_fault env (trace w4) errorHash = None \<longrightarrow>
                kv (snd (tail_event env event w)) errorHash = Some (''true'', 3600))"
proof -
  obtain error where d: "sendToSlack env (formatSlackMessage context aiSummary) w3 =
      (Inr (), w3\<lparr>trace := trace w3 @ [Fetch (SLACK_WEBHOOK_URL env) (slack_request (formatSlackMessage context aiSummary)),
                                        ConsoleError ''Error sending to Slack:'' error]\<rparr>)"
    using sendToSlack_failure [OF assms(7)] by (elim exE)
  let ?w4 = "w3\<lparr>trace := trace w3 @ [Fetch (SLACK_WEBHOOK_URL env) (slack_request (formatSlackMessage context aiSummary)),
                                        ConsoleError ''Error sending to Slack:'' error]\<rparr>"
  have t: "tail_event env event w = storeErrorHash env errorHash ?w4"
    using tail_event_notify [OF assms(1-6) d] .
  have g: "?w4 = ?w4
      \<and> sendToSlack env (formatSlackMessage context aiSummary) w3 = (Inr (), ?w4)
      \<and> tail_event env event w = storeErrorHash env errorHash ?w4
      \<and> fst (tail_event env event w) = Inr ()
      \<and> KvPut errorHash ''true'' 3600 \<in> set (trace (snd (tail_event env event w)))
      \<and> (kv_put_fault env (trace ?w4) errorHash = None \<longrightarrow>
            kv (snd (tail_event env event w)) errorHash = Some (''true'', 3600))"
  proof -
    have f: "fst (storeErrorHash env errorHash ?w4) = Inr ()"
      by (rule storeErrorHash_fst)
    have m: "KvPut errorHash ''true'' 3600 \<in> set (trace (snd (storeErrorHash env errorHash ?w4)))"
      by (rule storeErrorHash_issues_put)
    have k: "kv_put_fault env (trace ?w4) errorHash = None \<longrightarrow>
                kv (snd (storeErrorHash env errorHash ?w4)) errorHash = Some (''true'', 3600)"
      using storeErrorHash_kv [of env ?w4 errorHash] by (intro impI)
    show ?thesis
      unfolding t by (intro conjI refl d f m k)
  qed
  show ?thesis by (rule exI [of _ error], rule exI [of _ ?w4]) (rule g)
qed


text \<open>
  Claim C5. When the first or the second inference call rejects, \<open>generateErrorSummary\<close>
  returns the string \<^verbatim>\<open>Unable to generate AI analysis\<close> and does not throw. In the
  loop body the message is then formatted with that string and handed to the webhook
  call, and the body returns normally.
\<close>

theorem inference_failure_yields_fallback:
  assumes "inference_fails env context w2"
  shows "fst (generateErrorSummary env context w2) = Inr (JStr ''Unable to generate AI analysis'')
         \<and> (ev_outcome event = ''exception'' \<and> extractContext event = Inr context \<and> \<not> ignored context
              \<and> generateErrorHash env context w = (Inr errorHash, w1)
              \<and> checkDuplicateError env errorHash w1 = (Inr False, w2) \<longrightarrow>
                fst (tail_event env event w) = Inr ()
              \<and> Fetch (SLACK_WEBHOOK_URL env)
                   (slack_request (formatSlackMessage context (JStr ''Unable to generate AI analysis'')))
                  \<in> set (trace (snd (tail_event env event w))))"
proof -
  have f: "fst (generateErrorSummary env context w2) = Inr (JStr ''Unable to generate AI analysis'')"
    using assms by (rule generateErrorSummary_fallback)
  have "fst (tail_event env event w) = Inr ()
      \<and> Fetch (SLACK_WEBHOOK_URL env)
           (slack_request (formatSlackMessage context (JStr ''Unable to generate AI analysis'')))
          \<in> set (trace (snd (tail_event env event w)))"
    if h: "ev_outcome event = ''exception''" "extractContext event = Inr context" "\<not> ignored context"
      "generateErrorHash env context w = (Inr errorHash, w1)"
      "checkDuplicateError env errorHash w1 = (Inr False, w2)"
  proof -
    from h obtain aiSummary w3 w4 r3 r4 r5 where
      s: "generateErrorSummary env context w2 = (Inr aiSummary, w3)" and
      t3: "trace w3 = trace w2 @ AiRun analysis_model [(''user'', createAIPrompt context)] # r3" and
      d: "sendToSlack env (formatSlackMessage context aiSummary) w3 = (Inr (), w4)" and
      t4: "trace w4 = trace w3 @ Fetch (SLACK_WEBHOOK_URL env) (slack_request (formatSlackMessage context aiSummary)) # r4" and
      t: "tail_event env event w = storeErrorHash env errorHash w4" and
      r: "fst (tail_event env event w) = Inr ()" and
      t5: "trace (snd (tail_event env event w)) = trace w4 @ KvPut errorHash ''true'' 3600 # r5"
      by (rule notify_path)
    from s f have a: "aiSummary = JStr ''Unable to generate AI analysis''"
      by simp
    show ?thesis
      by (simp add: r t5 t4 a)
  qed
  with f show ?thesis by simp
qed

lemma outcome_order: "ev_outcome ev_order = ''exception''"
  by (simp add: ev_order_def)

lemma not_duplicate_order:
  assumes "kv_get_fault env = kv_get_fault env_up"
  shows "checkDuplicateError env ''60cf'' (emit (Digest ''SHA-256'' (hash_input ctx_order)) w_empty) =
     (Inr False, emit (KvGet ''60cf'') (emit (Digest ''SHA-256'' (hash_input ctx_order)) w_empty))"
  using assms by (simp add: checkDuplicateError_eq env_up_def w_empty_def emit_def)

theorem lookup_failure_is_fail_open_witness:
  "fst (checkDuplicateError env_kv_down ''60cf'' (emit (Digest ''SHA-256'' (hash_input ctx_order)) w_empty)) = Inr False
   \<and> fst (tail_event env_kv_down ev_order w_empty) = Inr ()
   \<and> AiRun analysis_model [(''user'', createAIPrompt ctx_order)]
       \<in> set (trace (snd (tail_event env_kv_down ev_order w_empty)))"
proof -
  let ?w1 = "emit (Digest ''SHA-256'' (hash_input ctx_order)) w_empty"
  have a: "kv_get_fault env_kv_down (trace ?w1) ''60cf'' = Some (Error ''KV unavailable'')"
    by (simp add: env_kv_down_def)
  have h: "generateErrorHash env_kv_down ctx_order w_empty = (Inr ''60cf'', ?w1)"
    by (rule digest_order) (simp add: env_kv_down_def)
  note th = lookup_failure_is_fail_open [OF a, of ev_order ctx_order w_empty]
  have c: "fst (checkDuplicateError env_kv_down ''60cf'' ?w1) = Inr False"
    using th [THEN conjunct1] by simp
  have "\<exists>aiSummary.
          fst (tail_event env_kv_down ev_order w_empty) = Inr ()
        \<and> AiRun analysis_model [(''user'', createAIPrompt ctx_order)]
            \<in> set (trace (snd (tail_event env_kv_down ev_order w_empty)))
        \<and> Fetch (SLACK_WEBHOOK_URL env_kv_down) (slack_request (formatSlackMessage ctx_order aiSummary))
            \<in> set (trace (snd (tail_event env_kv_down ev_order w_empty)))
        \<and> KvPut ''60cf'' ''true'' 3600 \<in> set (trace (snd (tail_event env_kv_down ev_order w_empty)))"
    by (rule th [THEN conjunct2, THEN mp]) (intro conjI outcome_order extract_order not_ignored_order h)
  then obtain aiSummary where
    "fst (tail_event env_kv_down ev_order w_empty) = Inr ()
        \<and> AiRun analysis_model [(''user'', createAIPrompt ctx_order)]
            \<in> set (trace (snd (tail_event env_kv_down ev_order w_empty)))
        \<and> Fetch (SLACK_WEBHOOK_URL env_kv_down) (slack_request (formatSlackMessage ctx_order aiSummary))
            \<in> set (trace (snd (tail_event env_kv_down ev_order w_empty)))
        \<and> KvPut ''60cf'' ''true'' 3600 \<in> set (trace (snd (tail_event env_kv_down ev_order w_empty)))"
    by (elim exE)
  then have "fst (tail_event env_kv_down ev_order w_empty) = Inr ()"
    and "AiRun analysis_model [(''user'', createAIPrompt ctx_order)]
            \<in> set (trace (snd (tail_event env_kv_down ev_order w_empty)))"
    by simp_all
  with c show ?thesis by (intro conjI)
qed

theorem delivery_failure_still_records_witness:
  "fst (tail_event env_slack_500 ev_order w_empty) = Inr ()
   \<and> kv (snd (tail_event env_slack_500 ev_order w_empty)) ''60cf'' = Some (''true'', 3600)
   \<and> fst (tail_event env_slack_unreachable ev_order w_empty) = Inr ()
   \<and> kv (snd (tail_event env_slack_unreachable ev_order w_empty)) ''60cf'' = Some (''true'', 3600)"
proof -
  let ?w1 = "emit (Digest ''SHA-256'' (hash_input ctx_order)) w_empty"
  let ?w2 = "emit (KvGet ''60cf'') ?w1"
  let ?w3 = "emit (AiRun summary_model [(''user'', summaryPrompt \<lparr>response = JStr ''summary''\<rparr>)])
               (emit (AiRun analysis_model [(''user'', createAIPrompt ctx_order)]) ?w2)"
  let ?m = "formatSlackMessage ctx_order (JStr ''summary'')"
  have main: "fst (tail_event env ev_order w_empty) = Inr ()
      \<and> kv (snd (tail_event env ev_order w_empty)) ''60cf'' = Some (''true'', 3600)"
    if e: "env = env_slack_500 \<or> env = env_slack_unreachable" for env
  proof -
    from e have same: "digest env = digest env_up" "kv_get_fault env = kv_get_fault env_up"
      "kv_put_fault env = kv_put_fault env_up" "AI_run env = AI_run env_up"
      by (auto simp: env_slack_500_def env_slack_unreachable_def)
    have h: "generateErrorHash env ctx_order w_empty = (Inr ''60cf'', ?w1)"
      using same(1) by (rule digest_order)
    have c: "checkDuplicateError env ''60cf'' ?w1 = (Inr False, ?w2)"
      using same(2) by (rule not_duplicate_order)
    have s: "generateErrorSummary env ctx_order ?w2 = (Inr (JStr ''summary''), ?w3)"
      by (simp add: generateErrorSummary_def generateErrorSummary_try_def AI_call_def same(4) env_up_def)
    have d: "delivery_fails env ?m ?w3"
      using e by (auto simp: delivery_fails_def env_slack_500_def env_slack_unreachable_def ok_def)
    from delivery_failure_still_records [OF outcome_order extract_order not_ignored_order h c s d]
    obtain error w4 where
      "w4 = ?w3\<lparr>trace := trace ?w3 @ [Fetch (SLACK_WEBHOOK_URL env) (slack_request ?m),
                                         ConsoleError ''Error sending to Slack:'' error]\<rparr>
       \<and> sendToSlack env ?m ?w3 = (Inr (), w4)
       \<and> tail_event env ev_order w_empty = storeErrorHash env ''60cf'' w4
       \<and> fst (tail_event env ev_order w_empty) = Inr ()
       \<and> KvPut ''60cf'' ''true'' 3600 \<in> set (trace (snd (tail_event env ev_order w_empty)))
       \<and> (kv_put_fault env (trace w4) ''60cf'' = None \<longrightarrow>
             kv (snd (tail_event env ev_order w_empty)) ''60cf'' = Some (''true'', 3600))"
      by (elim exE)
    note a = this
    have r: "fst (tail_event env ev_order w_empty) = Inr ()"
      by (rule a [THEN conjunct2, THEN conjunct2, THEN conjunct2, THEN conjunct1])
    have k: "kv_put_fault env (trace w4) ''60cf'' = None \<longrightarrow>
            kv (snd (tail_event env ev_order w_empty)) ''60cf'' = Some (''true'', 3600)"
      by (rule a [THEN conjunct2, THEN conjunct2, THEN conjunct2, THEN conjunct2, THEN conjunct2])
    have "kv_put_fault env (trace w4) ''60cf'' = None"
      by (simp add: same(3) env_up_def)
    with k r show ?thesis by simp
  qed
  from main [of env_slack_500] main [of env_slack_unreachable] show ?thesis
    by simp
qed

theorem inference_failure_yields_fallback_witness:
  "fst (generateErrorSummary env_ai_down ctx_order
          (emit (KvGet ''60cf'') (emit (Digest ''SHA-256'' (hash_input ctx_order)) w_empty)))
     = Inr (JStr ''Unable to generate AI analysis'')
   \<and> fst (tail_event env_ai_down ev_order w_empty) = Inr ()
   \<and> Fetch (SLACK_WEBHOOK_URL env_ai_down)
        (slack_request (formatSlackMessage ctx_order (JStr ''Unable to generate AI analysis'')))
       \<in> set (trace (snd (tail_event env_ai_down ev_order w_empty)))
   \<and> fst (generateErrorSummary env_summary_down ctx_order w_empty)
       = Inr (JStr ''Unable to generate AI analysis'')"
proof -
  let ?w1 = "emit (Digest ''SHA-256'' (hash_input ctx_order)) w_empty"
  let ?w2 = "emit (KvGet ''60cf'') ?w1"
  have "analysis_model \<noteq> summary_model"
    by (simp add: analysis_model_def summary_model_def)
  then have j: "inference_fails env_summary_down ctx_order w_empty"
    by (simp add: inference_fails_def env_summary_down_def)
  have second: "fst (generateErrorSummary env_summary_down ctx_order w_empty)
       = Inr (JStr ''Unable to generate AI analysis'')"
    by (rule inference_failure_yields_fallback [OF j, THEN conjunct1])
  have h: "generateErrorHash env_ai_down ctx_order w_empty = (Inr ''60cf'', ?w1)"
    by (rule digest_order) (simp add: env_ai_down_def)
  have c: "checkDuplicateError env_ai_down ''60cf'' ?w1 = (Inr False, ?w2)"
    by (rule not_duplicate_order) (simp add: env_ai_down_def)
  have i: "inference_fails env_ai_down ctx_order ?w2"
    by (simp add: inference_fails_def env_ai_down_def)
  note th = inference_failure_yields_fallback [OF i, of ev_order w_empty "''60cf''" ?w1]
  have "fst (tail_event env_ai_down ev_order w_empty) = Inr ()
      \<and> Fetch (SLACK_WEBHOOK_URL env_ai_down)
           (slack_request (formatSlackMessage ctx_order (JStr ''Unable to generate AI analysis'')))
          \<in> set (trace (snd (tail_event env_ai_down ev_order w_empty)))"
    by (rule th [THEN conjunct2, THEN mp]) (intro conjI outcome_order extract_order not_ignored_order h c)
  with th [THEN conjunct1] second show ?thesis by (intro conjI) simp_all
qed

subsection \<open>Absent urls and full urls\<close>

lemma checkDuplicateError_returns:
  "\<exists>isDuplicate rest. checkDuplicateError env errorHash w =
     (Inr isDuplicate, w\<lparr>trace := trace w @ KvGet errorHash # rest\<rparr>)"
proof (cases "kv_get_fault env (trace w) errorHash")
  case None
  then have "checkDuplicateError env errorHash w =
      (Inr (kv w errorHash \<noteq> None), w\<lparr>trace := trace w @ KvGet errorHash # []\<rparr>)"
    by (simp add: checkDuplicateError_eq emit_def)
  then show ?thesis by (intro exI)
next
  case (Some e)
  then have "checkDuplicateError env errorHash w =
      (Inr False, w\<lparr>trace := trace w @ KvGet errorHash # [ConsoleError ''Error checking duplicate:'' e]\<rparr>)"
    by (simp add: checkDuplicateError_eq emit_def)
  then show ?thesis by (intro exI)
qed

lemma tail_event_reaches_digest:
  assumes "ev_outcome event = ''exception''"
    and "extractContext event = Inr context"
    and "\<not> ignored context"
  shows "\<exists>rest. trace (snd (tail_event env event w)) = trace w @ Digest ''SHA-256'' (hash_input context) # rest"
proof -
  let ?w1 = "emit (Digest ''SHA-256'' (hash_input context)) w"
  have w1: "snd (generateErrorHash env context w) = ?w1"
    by (rule generateErrorHash_snd)
  show ?thesis
  proof (cases "fst (generateErrorHash env context w)")
    case (Inl e)
    with w1 have "generateErrorHash env context w = (Inl e, ?w1)"
      by (simp add: prod_eq_iff)
    with assms have "tail_event env event w = (Inl e, ?w1)"
      by (simp add: tail_event_def)
    then have "trace (snd (tail_event env event w)) = trace w @ Digest ''SHA-256'' (hash_input context) # []"
      by (simp add: emit_def)
    then show ?thesis by (rule exI [of _ "[]"])
  next
    case (Inr errorHash)
    with w1 have h: "generateErrorHash env context w = (Inr errorHash, ?w1)"
      by (simp add: prod_eq_iff)
    obtain isDuplicate r2 where c: "checkDuplicateError env errorHash ?w1 =
        (Inr isDuplicate, ?w1\<lparr>trace := trace ?w1 @ KvGet errorHash # r2\<rparr>)"
      using checkDuplicateError_returns [of env errorHash ?w1] by (elim exE)
    let ?w2 = "?w1\<lparr>trace := trace ?w1 @ KvGet errorHash # r2\<rparr>"
    show ?thesis
    proof (cases isDuplicate)
      case True
      with assms h c have "tail_event env event w =
          (Inr (), emit (ConsoleLog (''Duplicate error detected, hash: '' @ errorHash)) ?w2)"
        by (simp add: tail_event_not_ignored)
      then have "trace (snd (tail_event env event w)) =
          trace w @ Digest ''SHA-256'' (hash_input context)
            # (KvGet errorHash # r2 @ [ConsoleLog (''Duplicate error detected, hash: '' @ errorHash)])"
        by (simp add: emit_def)
      then show ?thesis by (rule exI)
    next
      case False
      with c have c': "checkDuplicateError env errorHash ?w1 = (Inr False, ?w2)"
        by simp
      from assms h c' obtain aiSummary w3 w4 r3 r4 r5 where
        s: "generateErrorSummary env context ?w2 = (Inr aiSummary, w3)" and
        t3: "trace w3 = trace ?w2 @ AiRun analysis_model [(''user'', createAIPrompt context)] # r3" and
        d: "sendToSlack env (formatSlackMessage context aiSummary) w3 = (Inr (), w4)" and
        t4: "trace w4 = trace w3 @ Fetch (SLACK_WEBHOOK_URL env) (slack_request (formatSlackMessage context aiSummary)) # r4" and
        t: "tail_event env event w = storeErrorHash env errorHash w4" and
        f: "fst (tail_event env event w) = Inr ()" and
        t5: "trace (snd (tail_event env event w)) = trace w4 @ KvPut errorHash ''true'' 3600 # r5"
        by (rule notify_path)
      have "trace (snd (tail_event env event w)) =
          trace w @ Digest ''SHA-256'' (hash_input context)
            # (KvGet errorHash # r2 @ AiRun analysis_model [(''user'', createAIPrompt context)] # r3
                 @ Fetch (SLACK_WEBHOOK_URL env) (slack_request (formatSlackMessage context aiSummary)) # r4
                 @ KvPut errorHash ''true'' 3600 # r5)"
        unfolding t5 t4 t3 by (simp add: emit_def)
      then show ?thesis by (rule exI)
    qed
  qed
qed

lemma not_ignored_undefined:
  assumes "url context = JUndefined"
  shows "\<not> ignored context"
  unfolding ignored_iff using assms by simp


text \<open>
  Claim C9. When the extracted url is \<^verbatim>\<open>undefined\<close>, no pattern of the noise filter
  matches (the test runs on the string \<^verbatim>\<open>undefined\<close>), the event is not ignored, and
  the loop body goes on to the fingerprint: the first effect of the event is the digest of
  its serialised context.
\<close>

theorem absent_url_is_not_filtered:
  assumes "ev_outcome event = ''exception''"
    and "extractContext event = Inr context"
    and "url context = JUndefined"
  shows "(\<forall>pattern\<in>set IGNORE_PATTERNS. \<not> test pattern (url context))
         \<and> \<not> ignored context
         \<and> (\<exists>rest. trace (snd (tail_event env event w)) =
                      trace w @ Digest ''SHA-256'' (hash_input context) # rest)"
proof -
  have n: "\<not> ignored context"
    using assms(3) by (rule not_ignored_undefined)
  then have p: "\<forall>pattern\<in>set IGNORE_PATTERNS. \<not> test pattern (url context)"
    by (simp add: ignored_def list_ex_iff)
  from p n tail_event_reaches_digest [OF assms(1,2) n, of env w] show ?thesis
    by (intro conjI)
qed

theorem absent_url_is_not_filtered_witness:
  "\<not> ignored ctx_no_request
   \<and> (\<exists>rest. trace (snd (tail_event env_up ev_no_request w_empty)) =
                Digest ''SHA-256'' (hash_input ctx_no_request) # rest)"
proof -
  have o: "ev_outcome ev_no_request = ''exception''"
    by (simp add: ev_no_request_def ev_order_def)
  have u: "url ctx_no_request = JUndefined"
    by (simp add: ctx_no_request_def)
  note th = absent_url_is_not_filtered [OF o extract_no_request u, of env_up w_empty]
  have a: "\<not> ignored ctx_no_request"
    by (rule th [THEN conjunct2, THEN conjunct1])
  have "\<exists>rest. trace (snd (tail_event env_up ev_no_request w_empty)) =
                trace w_empty @ Digest ''SHA-256'' (hash_input ctx_no_request) # rest"
    by (rule th [THEN conjunct2, THEN conjunct2])
  then have "\<exists>rest. trace (snd (tail_event env_up ev_no_request w_empty)) =
                Digest ''SHA-256'' (hash_input ctx_no_request) # rest"
    by (simp add: w_empty_def)
  with a show ?thesis by (intro conjI)
qed







subsection \<open>Context extraction\<close>















lemma extract_log_without_time:
  "extractContext ev_log_without_time = Inl (RangeError ''Invalid time value'')"
  by code_simp









subsection \<open>Failures across a batch\<close>

lemma tail_event_result:
  "fst (tail_event env event w) =
     (if ev_outcome event = ''exception'' then
        (case extractContext event of
           Inl e \<Rightarrow> Inl e
         | Inr context \<Rightarrow>
             if ignored context then Inr ()
             else (case digest env ''SHA-256'' (hash_input context) of
                     Inl e \<Rightarrow> Inl e
                   | Inr hashArray \<Rightarrow> Inr ()))
      else Inr ())"
proof (cases "ev_outcome event = ''exception''")
  case False
  then show ?thesis by (simp add: tail_event_def)
next
  case o: True
  show ?thesis
  proof (cases "extractContext event")
    case (Inl e)
    with o show ?thesis by (simp add: tail_event_def)
  next
    case x: (Inr c)
    show ?thesis
    proof (cases "ignored c")
      case True
      with o x show ?thesis by (simp add: tail_event_def)
    next
      case n: False
      let ?w1 = "emit (Digest ''SHA-256'' (hash_input c)) w"
      have w1: "snd (generateErrorHash env c w) = ?w1"
        by (rule generateErrorHash_snd)
      show ?thesis
      proof (cases "digest env ''SHA-256'' (hash_input c)")
        case (Inl e)
        then have "fst (generateErrorHash env c w) = Inl e"
          by (simp add: generateErrorHash_fst)
        with w1 have "generateErrorHash env c w = (Inl e, ?w1)"
          by (simp add: prod_eq_iff)
        with o x n Inl show ?thesis by (simp add: tail_event_def)
      next
        case (Inr hashArray)
        then obtain errorHash where "fst (generateErrorHash env c w) = Inr errorHash"
          by (simp add: generateErrorHash_fst)
        with w1 have h: "generateErrorHash env c w = (Inr errorHash, ?w1)"
          by (simp add: prod_eq_iff)
        obtain isDuplicate r2 where c: "checkDuplicateError env errorHash ?w1 =
            (Inr isDuplicate, ?w1\<lparr>trace := trace ?w1 @ KvGet errorHash # r2\<rparr>)"
          using checkDuplicateError_returns [of env errorHash ?w1] by (elim exE)
        have "fst (tail_event env event w) = Inr ()"
        proof (cases isDuplicate)
          case True
          with o x n h c show ?thesis by (simp add: tail_event_not_ignored)
        next
          case False
          with c have c': "checkDuplicateError env errorHash ?w1 =
              (Inr False, ?w1\<lparr>trace := trace ?w1 @ KvGet errorHash # r2\<rparr>)"
            by simp
          from o x n h c' obtain aiSummary w3 w4 r3 r4 r5 where
            "generateErrorSummary env c (?w1\<lparr>trace := trace ?w1 @ KvGet errorHash # r2\<rparr>) = (Inr aiSummary, w3)" and
            "trace w3 = trace (?w1\<lparr>trace := trace ?w1 @ KvGet errorHash # r2\<rparr>)
                @ AiRun analysis_model [(''user'', createAIPrompt c)] # r3" and
            "sendToSlack env (formatSlackMessage c aiSummary) w3 = (Inr (), w4)" and
            "trace w4 = trace w3 @ Fetch (SLACK_WEBHOOK_URL env) (slack_request (formatSlackMessage c aiSummary)) # r4" and
            "tail_event env event w = storeErrorHash env errorHash w4" and
            f: "fst (tail_event env event w) = Inr ()" and
            "trace (snd (tail_event env event w)) = trace w4 @ KvPut errorHash ''true'' 3600 # r5"
            by (rule notify_path)
          from f show ?thesis .
        qed
        with o x n Inr show ?thesis by simp
      qed
    qed
  qed
qed

lemma tail_event_throws_iff: "isl (fst (tail_event env event w)) \<longleftrightarrow> event_throws env event"
  by (simp add: tail_event_result event_throws_def split: sum.splits)

lemma tail_step_ok:
  assumes "\<not> event_throws env event"
  shows "fst (tail_event env event w) = Inr ()"
    and "tail env (event # events) w = tail env events (snd (tail_event env event w))"
proof -
  from assms have "\<not> isl (fst (tail_event env event w))"
    by (simp add: tail_event_throws_iff)
  then show r: "fst (tail_event env event w) = Inr ()"
    by (cases "fst (tail_event env event w)") simp_all
  obtain r1 w1 where p: "tail_event env event w = (r1, w1)"
    by (cases "tail_event env event w")
  with r have "r1 = Inr ()" by simp
  with p show "tail env (event # events) w = tail env events (snd (tail_event env event w))"
    by simp
qed

lemma tail_step_throws:
  assumes "event_throws env event"
  shows "tail env (event # events) w = tail_event env event w"
proof -
  from assms have "isl (fst (tail_event env event w))"
    by (simp add: tail_event_throws_iff)
  then obtain e where "fst (tail_event env event w) = Inl e"
    by (cases "fst (tail_event env event w)") simp_all
  moreover obtain r1 w1 where p: "tail_event env event w = (r1, w1)"
    by (cases "tail_event env event w")
  ultimately have "r1 = Inl e" by simp
  with p show ?thesis by simp
qed

lemma tail_all_ok:
  "list_all (\<lambda>e. \<not> event_throws env e) events \<Longrightarrow> fst (tail env events w) = Inr ()"
proof (induction events arbitrary: w)
  case Nil
  show ?case by simp
next
  case (Cons event events)
  then have "\<not> event_throws env event" and "list_all (\<lambda>e. \<not> event_throws env e) events"
    by simp_all
  then show ?case
    using tail_step_ok(2) [of env event events w] Cons.IH by simp
qed

lemma event_throws_services:
  "event_throws (env\<lparr>kv_get_fault := g, kv_put_fault := p, AI_run := a, fetch := f\<rparr>) event
     = event_throws env event"
  by (simp add: event_throws_def cong: sum.case_cong)

text \<open>
  Claim C7, as amended. Whether the loop body throws on an event depends only on context
  extraction and on the digest, never on the store, the inference service or the webhook.
  An event on which it does not throw is processed and the loop goes on with the next
  event; a batch of such events is processed to its end. An event on which context
  extraction or the digest throws ends \<open>tail\<close> with that exception, and the events after
  it are not visited.
\<close>

theorem batch_continues_unless_extraction_or_digest_throws:
  "event_throws (env\<lparr>kv_get_fault := g, kv_put_fault := p, AI_run := a, fetch := f\<rparr>) event
     = event_throws env event
   \<and> (\<not> event_throws env event \<longrightarrow>
         fst (tail_event env event w) = Inr ()
       \<and> tail env (event # events) w = tail env events (snd (tail_event env event w)))
   \<and> (list_all (\<lambda>e. \<not> event_throws env e) events \<longrightarrow> fst (tail env events w) = Inr ())
   \<and> (event_throws env event \<longrightarrow>
         isl (fst (tail_event env event w))
       \<and> tail env (event # events) w = tail_event env event w)"
proof (intro conjI impI)
  show "event_throws (env\<lparr>kv_get_fault := g, kv_put_fault := p, AI_run := a, fetch := f\<rparr>) event
          = event_throws env event"
    by (rule event_throws_services)
next
  assume "\<not> event_throws env event"
  then show "fst (tail_event env event w) = Inr ()"
    and "tail env (event # events) w = tail env events (snd (tail_event env event w))"
    by (rule tail_step_ok)+
next
  assume "list_all (\<lambda>e. \<not> event_throws env e) events"
  then show "fst (tail env events w) = Inr ()"
    by (rule tail_all_ok)
next
  assume t: "event_throws env event"
  then show "isl (fst (tail_event env event w))"
    by (simp add: tail_event_throws_iff)
  from t show "tail env (event # events) w = tail_event env event w"
    by (rule tail_step_throws)
qed

lemma not_throws_order:
  assumes "digest env = digest env_up"
  shows "\<not> event_throws env ev_order"
proof -
  have "\<not> isl (digest env_up ''SHA-256'' (hash_input ctx_order))"
    by (simp add: env_up_def)
  with assms show ?thesis
    by (simp add: event_throws_def extract_order not_ignored_order)
qed


lemma outcome_log_without_time: "ev_outcome ev_log_without_time = ''exception''"
  by (simp add: ev_log_without_time_def ev_order_def)

lemma outcome_favicon: "ev_outcome ev_favicon = ''exception''"
  by (simp add: ev_favicon_def ev_order_def)

lemma url_favicon: "url ctx_favicon = JStr ''favicon.ico''"
  by (simp add: ctx_favicon_def)

lemma ignored_favicon: "ignored ctx_favicon"
  by code_simp

lemma not_throws_favicon: "\<not> event_throws env ev_favicon"
  by (simp add: event_throws_def extract_favicon ignored_favicon)

lemma throws_log_without_time: "event_throws env ev_log_without_time"
  by (simp add: event_throws_def extract_log_without_time outcome_log_without_time)

theorem batch_continues_unless_extraction_or_digest_throws_witness:
  "fst (tail env_kv_down [ev_order, ev_favicon] w_empty) = Inr ()
   \<and> tail env_slack_500 [ev_order, ev_favicon] w_empty
       = tail env_slack_500 [ev_favicon] (snd (tail_event env_slack_500 ev_order w_empty))
   \<and> tail env_up [ev_log_without_time, ev_order] w_empty = tail_event env_up ev_log_without_time w_empty"
proof -
  have k: "\<not> event_throws env_kv_down ev_order"
    by (rule not_throws_order) (simp add: env_kv_down_def)
  have s: "\<not> event_throws env_slack_500 ev_order"
    by (rule not_throws_order) (simp add: env_slack_500_def)
  have l: "list_all (\<lambda>e. \<not> event_throws env_kv_down e) [ev_order, ev_favicon]"
    using k not_throws_favicon [of env_kv_down] by simp
  have a: "fst (tail env_kv_down [ev_order, ev_favicon] w_empty) = Inr ()"
    by (rule batch_continues_unless_extraction_or_digest_throws
          [where env = env_kv_down and event = ev_order and w = w_empty and events = "[ev_order, ev_favicon]",
           THEN conjunct2, THEN conjunct2, THEN conjunct1, THEN mp, OF l])
  have b: "tail env_slack_500 [ev_order, ev_favicon] w_empty
       = tail env_slack_500 [ev_favicon] (snd (tail_event env_slack_500 ev_order w_empty))"
    by (rule batch_continues_unless_extraction_or_digest_throws
          [where env = env_slack_500 and event = ev_order and w = w_empty and events = "[ev_favicon]",
           THEN conjunct2, THEN conjunct1, THEN mp, OF s, THEN conjunct2])
  have c: "tail env_up [ev_log_without_time, ev_order] w_empty = tail_event env_up ev_log_without_time w_empty"
    by (rule batch_continues_unless_extraction_or_digest_throws
          [where env = env_up and event = ev_log_without_time and w = w_empty and events = "[ev_order]",
           THEN conjunct2, THEN conjunct2, THEN conjunct2, THEN mp, OF throws_log_without_time, THEN conjunct2])
  from a b c show ?thesis by (intro conjI)
qed

text \<open>
  Claim C7 as it is stated fails. In a batch of two events, an event on which context
  extraction throws ends \<open>tail\<close> before the second event is visited: the batch leaves no
  effect, although the second event alone has effects. The same holds when the digest
  rejects on the first event: the console line of the second event is never written.
\<close>

theorem extraction_failure_aborts_the_batch:
  "tail env_up [ev_log_without_time, ev_order] w_empty = (Inl (RangeError ''Invalid time value''), w_empty)
   \<and> trace (snd (tail env_up [ev_order] w_empty)) \<noteq> trace w_empty
   \<and> tail env_no_digest [ev_order, ev_favicon] w_empty
       = (Inl (Error ''digest unavailable''), emit (Digest ''SHA-256'' (hash_input ctx_order)) w_empty)
   \<and> tail env_no_digest [ev_favicon] w_empty
       = (Inr (), emit (ConsoleLog ''Ignoring URL: favicon.ico'') w_empty)"
proof (intro conjI)
  show "tail env_up [ev_log_without_time, ev_order] w_empty = (Inl (RangeError ''Invalid time value''), w_empty)"
    by (simp add: tail_event_def extract_log_without_time outcome_log_without_time)
next
  have "tail env_up [ev_order] w_empty = tail env_up [] (snd (tail_event env_up ev_order w_empty))"
    by (rule tail_step_ok) (rule not_throws_order, rule refl)
  then have t: "snd (tail env_up [ev_order] w_empty) = snd (tail_event env_up ev_order w_empty)"
    by simp
  obtain rest where "trace (snd (tail_event env_up ev_order w_empty)) =
      trace w_empty @ Digest ''SHA-256'' (hash_input ctx_order) # rest"
    using tail_event_reaches_digest [OF outcome_order extract_order not_ignored_order, of env_up w_empty]
    by (elim exE)
  with t show "trace (snd (tail env_up [ev_order] w_empty)) \<noteq> trace w_empty"
    by simp
next
  have "digest env_no_digest ''SHA-256'' (hash_input ctx_order) = Inl (Error ''digest unavailable'')"
    by (simp add: env_no_digest_def)
  then have "generateErrorHash env_no_digest ctx_order w_empty
      = (Inl (Error ''digest unavailable''), emit (Digest ''SHA-256'' (hash_input ctx_order)) w_empty)"
    using generateErrorHash_fst [of env_no_digest ctx_order w_empty]
      generateErrorHash_snd [of env_no_digest ctx_order w_empty]
    by (simp add: prod_eq_iff)
  then show "tail env_no_digest [ev_order, ev_favicon] w_empty
       = (Inl (Error ''digest unavailable''), emit (Digest ''SHA-256'' (hash_input ctx_order)) w_empty)"
    by (simp add: tail_event_def outcome_order extract_order not_ignored_order)
next
  show "tail env_no_digest [ev_favicon] w_empty
       = (Inr (), emit (ConsoleLog ''Ignoring URL: favicon.ico'') w_empty)"
    by (simp add: tail_event_def extract_favicon outcome_favicon ignored_favicon url_favicon)
qed

end
